theory Spec2Isabelle
  imports Main "HOL-Library.Word"
begin

section \<open>The reconnecting WebSocket client of rpc/jsonrpc/client/ws\_client.go\<close>

text \<open>
  The client runs three goroutines (writeRoutine, readRoutine, reconnectRoutine) beside
  the caller. Each routine is embedded as a function of the client's state and of what
  its environment decides at the point where the routine waits: which case of a
  \<^verbatim>\<open>select\<close> fires, whether a write on the connection fails, what a dial returns.
  A routine that is blocked on a channel is a value of the result type, never a missing
  equation. Calls of the logger have no effect on the state and are left out.

  Numbers. \<^verbatim>\<open>time.Duration\<close> is an int64 count of nanoseconds and is a \<open>64 word\<close>: the
  backoff doubles with every attempt and leaves the range of int64 after a few dozen
  attempts. The request counter \<^verbatim>\<open>nextReqID\<close> (Go \<^verbatim>\<open>int\<close>) and the attempt counter
  (Go \<^verbatim>\<open>uint\<close>) move by one per call or per dial; they are \<open>int\<close> and \<open>nat\<close>, which
  agree with the machine integers for as long as these have not wrapped, that is for
  the first \<open>2 ^ 31\<close> calls or dials at least, whatever the platform.
\<close>

subsection \<open>Values\<close>

type_synonym Duration = "64 word"

type_synonym Time = int

text \<open>
  Errors. A read reports the peer's close frame as \<^verbatim>\<open>*websocket.CloseError\<close> with its
  code; every other failure of the connection or of the dialer is \<open>IOError\<close>.
  \<open>CtxError\<close> is what \<^verbatim>\<open>ctx.Err()\<close> returns, \<open>MaxAttempts e\<close> is
  \<^verbatim>\<open>fmt.Errorf("reached maximum reconnect attempts: %w", e)\<close>.
\<close>

datatype error =
    CloseError int
  | IOError string
  | CtxError string
  | MarshalError string
  | MaxAttempts error
  | NotRunning
  | AlreadyStarted

record RPCRequest =
  ID :: int
  Method :: string
  Params :: string

record RPCResponse =
  RespID :: "int option"
  Result :: string

datatype frame = JSONFrame RPCRequest | PingFrame | CloseFrame int

subsection \<open>Channels\<close>

text \<open>
  A Go channel is its capacity and the queue of values it buffers. A send on a full
  channel and a receive on an empty one do not happen (\<open>None\<close>): the goroutine waits.
  A channel that was never made (\<^verbatim>\<open>nil\<close>) blocks both ways, as one of capacity 0 with
  nobody on the other side does.
\<close>

record 'a chan =
  cap :: nat
  buf :: "'a list"

definition make_chan :: "nat \<Rightarrow> 'a chan" where
  "make_chan n = \<lparr>cap = n, buf = []\<rparr>"

definition chan_send :: "'a chan \<Rightarrow> 'a \<Rightarrow> 'a chan option" where
  "chan_send ch x =
     (if length (buf ch) < cap ch then Some (ch\<lparr>buf := buf ch @ [x]\<rparr>) else None)"

definition chan_recv :: "'a chan \<Rightarrow> ('a \<times> 'a chan) option" where
  "chan_recv ch = (case buf ch of [] \<Rightarrow> None | x # xs \<Rightarrow> Some (x, ch\<lparr>buf := xs\<rparr>))"

subsection \<open>The connection and the client\<close>

text \<open>
  A connection keeps what was written on it, in order, its deadlines and whether it was
  closed. \<open>connID\<close> tells one dialled connection from the next.

  The client has the fields of the Go struct that the routines read or write, and three
  that the struct leaves to the runtime: \<open>ctxDone\<close> (the context given to
  \<^verbatim>\<open>Start\<close> was cancelled), \<open>workerGens\<close> (how many times
  \<^verbatim>\<open>startReadWriteRoutines\<close> ran) and \<open>onReconnectCalls\<close> (how many times the
  callback was launched). \<open>running\<close> is the flag of the embedded \<^verbatim>\<open>RunState\<close>,
  \<open>wg\<close> the counter of the wait group, \<open>readRoutineQuit\<close> whether that channel was
  closed, \<open>ResponsesCh\<close> the responses handed to the consumer so far, \<open>latencies\<close>
  the samples given to \<^verbatim>\<open>PingPongLatencyTimer\<close> (\<open>None\<close> for the timer that keeps none).
\<close>

record Conn =
  connID :: nat
  written :: "frame list"
  writeDeadline :: "Time option"
  readDeadline :: "Time option"
  closed :: bool

definition new_conn :: "nat \<Rightarrow> Conn" where
  "new_conn n =
     \<lparr>connID = n, written = [], writeDeadline = None, readDeadline = None, closed = False\<rparr>"

record WSOptions =
  MaxReconnectAttempts :: nat
  ReadWait :: Duration
  WriteWait :: Duration
  PingPeriod :: Duration
  SkipMetrics :: bool

record WSClient =
  running :: bool
  conn :: "Conn option"
  ResponsesCh :: "RPCResponse list"
  responsesClosed :: bool
  onReconnect :: bool
  onReconnectCalls :: nat
  backlog :: "RPCRequest chan"
  reconnectAfter :: "error chan"
  readRoutineQuit :: bool
  maxReconnectAttempts :: nat
  wg :: int
  workerGens :: nat
  ctxDone :: bool
  sentLastPingAt :: Time
  reconnecting :: bool
  nextReqID :: int
  writeWait :: Duration
  readWait :: Duration
  pingPeriod :: Duration
  latencies :: "int list option"

definition Second :: Duration where
  "Second = 1000000000"

definition DefaultWSOptions :: WSOptions where
  "DefaultWSOptions =
     \<lparr>MaxReconnectAttempts = 10, ReadWait = 0, WriteWait = 10 * Second, PingPeriod = 0,
      SkipMetrics = False\<rparr>"

text \<open>
  \<^verbatim>\<open>NewWSWithOptions\<close>, once the address has parsed: the fields the composite literal
  names, and Go's zero value in every other one (no connection, nil channels, counter 0).
\<close>

definition NewWSWithOptions :: "WSOptions \<Rightarrow> WSClient" where
  "NewWSWithOptions opts =
     \<lparr>running = False, conn = None, ResponsesCh = [], responsesClosed = False,
      onReconnect = False, onReconnectCalls = 0,
      backlog = make_chan 0, reconnectAfter = make_chan 0, readRoutineQuit = False,
      maxReconnectAttempts = MaxReconnectAttempts opts, wg = 0, workerGens = 0,
      ctxDone = False, sentLastPingAt = 0,
      reconnecting = False, nextReqID = 0,
      writeWait = WriteWait opts, readWait = ReadWait opts, pingPeriod = PingPeriod opts,
      latencies = (if SkipMetrics opts then None else Some [])\<rparr>"

definition NewWS :: WSClient where
  "NewWS = NewWSWithOptions DefaultWSOptions"

subsection \<open>Identifiers and the intake\<close>

text \<open>
  \<^verbatim>\<open>nextRequestID\<close> reads and increments the counter between \<^verbatim>\<open>Lock\<close> and
  \<^verbatim>\<open>Unlock\<close>: one step of the state.
\<close>

definition nextRequestID :: "WSClient \<Rightarrow> int \<times> WSClient" where
  "nextRequestID c = (nextReqID c, c\<lparr>nextReqID := nextReqID c + 1\<rparr>)"


text \<open>
  What the \<^verbatim>\<open>select\<close> of \<^verbatim>\<open>Send\<close> meets: whether writeRoutine is receiving on the
  unbuffered \<^verbatim>\<open>c.send\<close>, whether \<^verbatim>\<open>ctx\<close> is done (with its error), and the case the
  runtime picks when both are ready.
\<close>

record select_env =
  writer_ready :: bool
  ctx_done :: "error option"
  pick_send :: bool

datatype send_result =
    SendBlocked WSClient
  | SendReturned "error option" "RPCRequest option" WSClient

fun returned_error :: "send_result \<Rightarrow> error option" where
  "returned_error (SendBlocked c) = None"
| "returned_error (SendReturned e h c) = e"

fun handed :: "send_result \<Rightarrow> RPCRequest option" where
  "handed (SendBlocked c) = None"
| "handed (SendReturned e h c) = h"

fun client_after :: "send_result \<Rightarrow> WSClient" where
  "client_after (SendBlocked c) = c"
| "client_after (SendReturned e h c) = c"

text \<open>
  \<^verbatim>\<open>Send\<close>. \<open>SendBlocked\<close>: no case of the \<^verbatim>\<open>select\<close> is ready and the caller waits.
  \<open>SendReturned e h c\<close>: \<^verbatim>\<open>Send\<close> returned \<open>e\<close>, and \<open>h\<close> is the request
  writeRoutine received from \<^verbatim>\<open>c.send\<close>, if it received one.
\<close>

definition Send :: "WSClient \<Rightarrow> select_env \<Rightarrow> RPCRequest \<Rightarrow> send_result" where
  "Send c env request =
     (if writer_ready env \<and> (ctx_done env = None \<or> pick_send env)
      then SendReturned None (Some request) c
      else (case ctx_done env of
              Some e \<Rightarrow> SendReturned (Some e) None c
            | None \<Rightarrow> SendBlocked c))"

text \<open>
  Modelled from the spec: \<^verbatim>\<open>rpctypes.MapToRequest\<close> (rpc/jsonrpc/types) is not among the
  sources. A request is an identifier, a method name and parameters; building it fails
  only when the parameters do not encode, and the outcome of the encoding is the
  argument \<open>payload\<close>.
\<close>

definition MapToRequest :: "int \<Rightarrow> string \<Rightarrow> error + string \<Rightarrow> error + RPCRequest" where
  "MapToRequest i m payload =
     (case payload of
        Inl e \<Rightarrow> Inl e
      | Inr p \<Rightarrow> Inr \<lparr>ID = i, Method = m, Params = p\<rparr>)"

definition Call :: "WSClient \<Rightarrow> select_env \<Rightarrow> string \<Rightarrow> error + string \<Rightarrow> send_result" where
  "Call c env m payload =
     (case nextRequestID c of (i, c') \<Rightarrow>
        (case MapToRequest i m payload of
           Inl e \<Rightarrow> SendReturned (Some e) None c'
         | Inr request \<Rightarrow> Send c' env request))"


subsection \<open>Writing on the connection\<close>

definition on_conn :: "(Conn \<Rightarrow> Conn) \<Rightarrow> WSClient \<Rightarrow> WSClient" where
  "on_conn f c = c\<lparr>conn := map_option f (conn c)\<rparr>"

text \<open>
  \<^verbatim>\<open>if c.writeWait > 0 { c.conn.SetWriteDeadline(time.Now().Add(c.writeWait)) }\<close> and its
  twin for reads; \<open>now\<close> is the clock at that call.
\<close>

definition set_write_deadline :: "Time \<Rightarrow> WSClient \<Rightarrow> WSClient" where
  "set_write_deadline now c =
     (if 0 <s writeWait c
      then on_conn (\<lambda>k. k\<lparr>writeDeadline := Some (now + sint (writeWait c))\<rparr>) c
      else c)"

definition set_read_deadline :: "Time \<Rightarrow> WSClient \<Rightarrow> WSClient" where
  "set_read_deadline now c =
     (if 0 <s readWait c
      then on_conn (\<lambda>k. k\<lparr>readDeadline := Some (now + sint (readWait c))\<rparr>) c
      else c)"

text \<open>
  A write either fails with the error the environment decides, and leaves no frame, or
  appends its frame to what the connection has received.
\<close>

definition write_frame :: "frame \<Rightarrow> error option \<Rightarrow> WSClient \<Rightarrow> WSClient" where
  "write_frame f res c =
     (case res of
        None \<Rightarrow> on_conn (\<lambda>k. k\<lparr>written := written k @ [f]\<rparr>) c
      | Some e \<Rightarrow> c)"

definition close_conn :: "WSClient \<Rightarrow> WSClient" where
  "close_conn c = on_conn (\<lambda>k. k\<lparr>closed := True\<rparr>) c"

subsection \<open>Where a goroutine waits, and how a step of a routine ends\<close>

datatype wait_point =
    AtSelect
  | AtSignal error "RPCRequest option"
  | AtBacklog RPCRequest
  | AtWaitGroup
  | AtTimer

text \<open>
  \<open>Blocked w c\<close>: the goroutine waits at \<open>w\<close>, having brought the client to \<open>c\<close>.
  \<open>Continue c\<close>: the body of the loop ran and the loop goes round.
  \<open>Returned r c\<close>: the function returned \<open>r\<close>, its deferred calls included.
\<close>

datatype 'r outcome =
    Blocked wait_point WSClient
  | Continue WSClient
  | Returned 'r WSClient

fun state_of :: "'r outcome \<Rightarrow> WSClient" where
  "state_of (Blocked w c) = c"
| "state_of (Continue c) = c"
| "state_of (Returned r c) = c"

subsection \<open>writeRoutine\<close>

text \<open>
  The deferred function of writeRoutine: \<^verbatim>\<open>ticker.Stop(); c.conn.Close(); c.wg.Done()\<close>.
\<close>

definition writeRoutine_exit :: "WSClient \<Rightarrow> WSClient" where
  "writeRoutine_exit c = (close_conn c)\<lparr>wg := wg c - 1\<rparr>"

text \<open>
  The two sends that follow a failed write, \<^verbatim>\<open>c.reconnectAfter <- err\<close> and, for a
  request, \<^verbatim>\<open>c.backlog <- request\<close>, then \<^verbatim>\<open>return\<close>. Each send waits while its
  channel is full; a waiting routine goes on from the same send.
\<close>

definition write_requeue :: "RPCRequest option \<Rightarrow> WSClient \<Rightarrow> unit outcome" where
  "write_requeue rq c =
     (case rq of
        None \<Rightarrow> Returned () (writeRoutine_exit c)
      | Some request \<Rightarrow>
          (case chan_send (backlog c) request of
             None \<Rightarrow> Blocked (AtBacklog request) c
           | Some b \<Rightarrow> Returned () (writeRoutine_exit (c\<lparr>backlog := b\<rparr>))))"

definition write_signal :: "error \<Rightarrow> RPCRequest option \<Rightarrow> WSClient \<Rightarrow> unit outcome" where
  "write_signal err rq c =
     (case chan_send (reconnectAfter c) err of
        None \<Rightarrow> Blocked (AtSignal err rq) c
      | Some ra \<Rightarrow> write_requeue rq (c\<lparr>reconnectAfter := ra\<rparr>))"

fun writeRoutine_resume :: "wait_point \<Rightarrow> WSClient \<Rightarrow> unit outcome" where
  "writeRoutine_resume (AtSignal err rq) c = write_signal err rq c"
| "writeRoutine_resume (AtBacklog request) c = write_requeue (Some request) c"
| "writeRoutine_resume w c = Blocked w c"

text \<open>
  The cases of the \<^verbatim>\<open>select\<close>, each with the result of the write it leads to.
\<close>

datatype write_event =
    GotRequest RPCRequest "error option"
  | Tick "error option"
  | ReadQuit
  | WriterCtxDone "error option"

definition CloseNormalClosure :: int where
  "CloseNormalClosure = 1000"

text \<open>
  One round of the loop of writeRoutine. \<open>t1\<close> is the clock when the write deadline is
  set, \<open>t2\<close> the clock after the ping was written. The ticker fires only when
  \<^verbatim>\<open>pingPeriod > 0\<close>; \<^verbatim>\<open>readRoutineQuit\<close> is ready once closed, \<^verbatim>\<open>ctx.Done()\<close> once
  the context is cancelled.
\<close>

fun writeRoutine_step :: "Time \<Rightarrow> Time \<Rightarrow> write_event \<Rightarrow> WSClient \<Rightarrow> unit outcome" where
  "writeRoutine_step t1 t2 (GotRequest request res) c =
     (let c1 = set_write_deadline t1 c in
      case res of
        Some err \<Rightarrow> write_signal err (Some request) c1
      | None \<Rightarrow> Continue (write_frame (JSONFrame request) None c1))"
| "writeRoutine_step t1 t2 (Tick res) c =
     (if \<not> 0 <s pingPeriod c then Blocked AtSelect c
      else
        (let c1 = set_write_deadline t1 c in
         case res of
           Some err \<Rightarrow> write_signal err None c1
         | None \<Rightarrow> Continue ((write_frame PingFrame None c1)\<lparr>sentLastPingAt := t2\<rparr>)))"
| "writeRoutine_step t1 t2 ReadQuit c =
     (if readRoutineQuit c then Returned () (writeRoutine_exit c) else Blocked AtSelect c)"
| "writeRoutine_step t1 t2 (WriterCtxDone res) c =
     (if ctxDone c
      then Returned () (writeRoutine_exit (write_frame (CloseFrame CloseNormalClosure) res c))
      else Blocked AtSelect c)"

subsection \<open>readRoutine\<close>

text \<open>
  \<^verbatim>\<open>websocket.IsUnexpectedCloseError\<close> belongs to the imported package
  gorilla/websocket: it is true of an error exactly when the error is a
  \<^verbatim>\<open>*CloseError\<close> whose code is none of the expected ones.
\<close>

fun IsUnexpectedCloseError :: "error \<Rightarrow> int list \<Rightarrow> bool" where
  "IsUnexpectedCloseError (CloseError code) expectedCodes = (code \<notin> set expectedCodes)"
| "IsUnexpectedCloseError e expectedCodes = False"

definition readRoutine_exit :: "WSClient \<Rightarrow> WSClient" where
  "readRoutine_exit c = (close_conn c)\<lparr>wg := wg c - 1\<rparr>"

definition read_signal :: "error \<Rightarrow> WSClient \<Rightarrow> unit outcome" where
  "read_signal err c =
     (case chan_send (reconnectAfter c) err of
        None \<Rightarrow> Blocked (AtSignal err None) c
      | Some ra \<Rightarrow> Returned () (readRoutine_exit (c\<lparr>reconnectAfter := ra\<rparr>)))"

fun readRoutine_resume :: "wait_point \<Rightarrow> WSClient \<Rightarrow> unit outcome" where
  "readRoutine_resume (AtSignal err rq) c = read_signal err c"
| "readRoutine_resume w c = Blocked w c"

text \<open>
  What \<^verbatim>\<open>ReadMessage\<close> brings: an error; a pong, which runs the pong handler at clock
  \<open>t\<close> inside the read, so that the read goes on under the deadline it has; or a data
  frame, with what \<^verbatim>\<open>json.Unmarshal\<close> and \<^verbatim>\<open>validateResponseID\<close> make of it and, for a
  valid response, whether the consumer takes it from \<^verbatim>\<open>ResponsesCh\<close> before the
  context is done. \<open>now\<close> is the clock when the round set its read deadline.
\<close>

datatype parsed = Malformed | InvalidID | Valid RPCResponse

datatype read_event =
    ReadError error
  | Pong Time
  | ReadData parsed bool

fun readRoutine_step :: "Time \<Rightarrow> read_event \<Rightarrow> WSClient \<Rightarrow> unit outcome" where
  "readRoutine_step now (ReadError err) c =
     (let c1 = set_read_deadline now c in
      if \<not> IsUnexpectedCloseError err [CloseNormalClosure]
      then Returned () (readRoutine_exit c1)
      else read_signal err (c1\<lparr>readRoutineQuit := True\<rparr>))"
| "readRoutine_step now (Pong t) c =
     Continue
       (c\<lparr>latencies := map_option (\<lambda>samples. samples @ [t - sentLastPingAt c]) (latencies c)\<rparr>)"
| "readRoutine_step now (ReadData Malformed taken) c = Continue (set_read_deadline now c)"
| "readRoutine_step now (ReadData InvalidID taken) c = Continue (set_read_deadline now c)"
| "readRoutine_step now (ReadData (Valid response) taken) c =
     (let c1 = set_read_deadline now c in
      if taken then Continue (c1\<lparr>ResponsesCh := ResponsesCh c1 @ [response]\<rparr>)
      else if ctxDone c1 then Returned () (readRoutine_exit c1)
      else Blocked AtSelect c1)"

subsection \<open>Dialling and the backoff\<close>

text \<open>
  \<^verbatim>\<open>dial\<close>: the dialer fails, or returns a connection nothing was written on yet, which
  replaces \<^verbatim>\<open>c.conn\<close>.
\<close>

definition dial :: "error + nat \<Rightarrow> WSClient \<Rightarrow> error option \<times> WSClient" where
  "dial d c =
     (case d of
        Inl err \<Rightarrow> (Some err, c)
      | Inr n \<Rightarrow> (None, c\<lparr>conn := Some (new_conn n)\<rparr>))"

text \<open>
  \<^verbatim>\<open>backoffDuration := jitter + ((1 << attempt) * time.Second)\<close>. The constant 1 takes
  the type of the product, \<^verbatim>\<open>time.Duration\<close>, so the shift and the product are those
  of int64: bits shifted out are lost, the product wraps. \<open>jitter\<close> is
  \<^verbatim>\<open>time.Duration(mrand.Float64() * float64(time.Second))\<close>, a whole number of
  nanoseconds that the random source decides.
\<close>

definition backoffDuration :: "Duration \<Rightarrow> nat \<Rightarrow> Duration" where
  "backoffDuration jitter attempt = jitter + push_bit attempt 1 * Second"

text \<open>
  How the wait of one round of \<^verbatim>\<open>reconnect\<close> ends: the context is cancelled, or the
  timer fires and the dial that follows has the given result.
\<close>

datatype wake = WakeCtxDone | WakeTimer "error + nat"

datatype reconnect_result = StillWaiting | ReconnectReturned "error option"

text \<open>
  The loop of \<^verbatim>\<open>reconnect\<close> over the rounds the environment has decided so far, each
  with the jitter drawn in it. The second component lists the durations the timer was
  reset to, in order. When the rounds run out the routine is waiting on its timer.
\<close>

fun reconnect_loop ::
  "nat \<Rightarrow> (Duration \<times> wake) list \<Rightarrow> WSClient \<Rightarrow> reconnect_result \<times> Duration list \<times> WSClient"
where
  "reconnect_loop attempt [] c = (StillWaiting, [], c)"
| "reconnect_loop attempt ((jitter, w) # rounds) c =
     (let backoff = backoffDuration jitter attempt in
      case w of
        WakeCtxDone \<Rightarrow> (ReconnectReturned None, [backoff], c\<lparr>ctxDone := True\<rparr>)
      | WakeTimer d \<Rightarrow>
          (case dial d c of
             (None, c') \<Rightarrow>
               (ReconnectReturned None, [backoff],
                if onReconnect c' then c'\<lparr>onReconnectCalls := onReconnectCalls c' + 1\<rparr> else c')
           | (Some err, c') \<Rightarrow>
               (if maxReconnectAttempts c' < attempt + 1
                then (ReconnectReturned (Some (MaxAttempts err)), [backoff], c')
                else
                  (case reconnect_loop (attempt + 1) rounds c' of
                     (r, ds, c'') \<Rightarrow> (r, backoff # ds, c'')))))"

text \<open>
  \<^verbatim>\<open>reconnect\<close>: the flag is set on entry and cleared by the deferred function when the
  loop returns.
\<close>

definition reconnect ::
  "(Duration \<times> wake) list \<Rightarrow> WSClient \<Rightarrow> reconnect_result \<times> Duration list \<times> WSClient"
where
  "reconnect rounds c =
     (case reconnect_loop 0 rounds (c\<lparr>reconnecting := True\<rparr>) of
        (StillWaiting, ds, c') \<Rightarrow> (StillWaiting, ds, c')
      | (ReconnectReturned r, ds, c') \<Rightarrow> (ReconnectReturned r, ds, c'\<lparr>reconnecting := False\<rparr>))"

subsection \<open>Start, Stop and the health queries\<close>

definition startReadWriteRoutines :: "WSClient \<Rightarrow> WSClient" where
  "startReadWriteRoutines c =
     c\<lparr>wg := wg c + 2, readRoutineQuit := False, workerGens := workerGens c + 1\<rparr>"

text \<open>
  Modelled from the spec: \<^verbatim>\<open>RunState\<close> (rpc/client) is not among the sources. It is the
  run state that gates whether an operation is legal: \<^verbatim>\<open>Start\<close> fails on a running
  client and marks it running, \<^verbatim>\<open>Stop\<close> fails on a client that is not running and
  marks it stopped, \<^verbatim>\<open>IsRunning\<close> reads the mark.
\<close>

definition RunState_Start :: "WSClient \<Rightarrow> error option \<times> WSClient" where
  "RunState_Start c = (if running c then (Some AlreadyStarted, c) else (None, c\<lparr>running := True\<rparr>))"

definition RunState_Stop :: "WSClient \<Rightarrow> error option \<times> WSClient" where
  "RunState_Stop c = (if running c then (None, c\<lparr>running := False\<rparr>) else (Some NotRunning, c))"

definition IsRunning :: "WSClient \<Rightarrow> bool" where
  "IsRunning c = running c"

definition Start :: "error + nat \<Rightarrow> WSClient \<Rightarrow> error option \<times> WSClient" where
  "Start d c =
     (case RunState_Start c of
        (Some err, c1) \<Rightarrow> (Some err, c1)
      | (None, c1) \<Rightarrow>
          (case dial d c1 of
             (Some err, c2) \<Rightarrow> (Some err, c2)
           | (None, c2) \<Rightarrow>
               (None,
                startReadWriteRoutines
                  (c2\<lparr>ResponsesCh := [], responsesClosed := False,
                      reconnectAfter := make_chan 1, backlog := make_chan 1\<rparr>))))"

text \<open>
  \<^verbatim>\<open>Stop\<close> waits for the wait group before it closes \<^verbatim>\<open>ResponsesCh\<close>.
\<close>

definition Stop :: "WSClient \<Rightarrow> error option outcome" where
  "Stop c =
     (case RunState_Stop c of
        (Some err, c1) \<Rightarrow> Returned (Some err) c1
      | (None, c1) \<Rightarrow>
          (if wg c1 = 0 then Returned None (c1\<lparr>responsesClosed := True\<rparr>)
           else Blocked AtWaitGroup c1))"

definition IsReconnecting :: "WSClient \<Rightarrow> bool" where
  "IsReconnecting c = reconnecting c"

definition IsActive :: "WSClient \<Rightarrow> bool" where
  "IsActive c = (IsRunning c \<and> \<not> IsReconnecting c)"

subsection \<open>The backlog and reconnectRoutine\<close>

text \<open>
  \<^verbatim>\<open>processBacklog\<close>. \<open>res\<close> is the result of \<^verbatim>\<open>WriteJSON\<close>, \<open>now\<close> the clock when the
  write deadline is set. With nothing in the backlog the \<^verbatim>\<open>default\<close> case returns nil.
\<close>

definition processBacklog :: "Time \<Rightarrow> error option \<Rightarrow> WSClient \<Rightarrow> error option outcome" where
  "processBacklog now res c =
     (case chan_recv (backlog c) of
        None \<Rightarrow> Returned None c
      | Some (request, b) \<Rightarrow>
          (let c1 = set_write_deadline now (c\<lparr>backlog := b\<rparr>) in
           case res of
             None \<Rightarrow> Returned None (write_frame (JSONFrame request) None c1)
           | Some err \<Rightarrow>
               (case chan_send (reconnectAfter c1) err of
                  None \<Rightarrow> Blocked (AtSignal err (Some request)) c1
                | Some ra \<Rightarrow>
                    (case chan_send (backlog c1) request of
                       None \<Rightarrow> Blocked (AtBacklog request) (c1\<lparr>reconnectAfter := ra\<rparr>)
                     | Some b' \<Rightarrow>
                         Returned (Some err) (c1\<lparr>reconnectAfter := ra, backlog := b'\<rparr>)))))"

text \<open>
  The loop that drains \<^verbatim>\<open>reconnectAfter\<close>, over the values the channel buffers. While
  the context is not done the loop receives until the channel is empty and breaks. Once
  it is done, \<open>picks\<close> tells for each round whether the runtime picks the receive
  over \<^verbatim>\<open>ctx.Done()\<close>; the \<^verbatim>\<open>default\<close> case is never taken then.
\<close>

datatype drain_exit = DrainBreak | DrainReturn

fun drain_loop :: "bool \<Rightarrow> bool list \<Rightarrow> error list \<Rightarrow> drain_exit \<times> error list" where
  "drain_loop done picks [] = (if done then DrainReturn else DrainBreak, [])"
| "drain_loop done picks (e # es) =
     (if done
      then (case picks of
              True # picks' \<Rightarrow> drain_loop done picks' es
            | _ \<Rightarrow> (DrainReturn, e # es))
      else drain_loop done picks es)"

definition drain :: "bool list \<Rightarrow> WSClient \<Rightarrow> drain_exit \<times> WSClient" where
  "drain picks c =
     (case drain_loop (ctxDone c) picks (buf (reconnectAfter c)) of
        (x, es) \<Rightarrow> (x, c\<lparr>reconnectAfter := (reconnectAfter c)\<lparr>buf := es\<rparr>\<rparr>))"

text \<open>
  What the environment decides in one round of reconnectRoutine: the rounds of
  \<^verbatim>\<open>reconnect\<close>, the picks of the draining loop, and the clock and the result of the
  write in \<^verbatim>\<open>processBacklog\<close>.
\<close>

record coord_env =
  reconnect_rounds :: "(Duration \<times> wake) list"
  drain_picks :: "bool list"
  backlog_now :: Time
  backlog_write :: "error option"

datatype coord_event = CoordCtxDone | GotFailure

text \<open>
  The case \<^verbatim>\<open>originalError := <-c.reconnectAfter\<close> of reconnectRoutine, from
  \<^verbatim>\<open>c.wg.Wait()\<close> on. The wait is over when the counter is 0. \<open>Continue\<close> is the way
  back to the \<^verbatim>\<open>select\<close>.
\<close>

definition reconnectRoutine_failure :: "coord_env \<Rightarrow> WSClient \<Rightarrow> unit outcome" where
  "reconnectRoutine_failure env c =
     (if wg c \<noteq> 0 then Blocked AtWaitGroup c
      else
        (case reconnect (reconnect_rounds env) c of
           (StillWaiting, ds, c2) \<Rightarrow> Blocked AtTimer c2
         | (ReconnectReturned (Some err), ds, c2) \<Rightarrow>
             (case Stop c2 of
                Returned stopErr c3 \<Rightarrow> Returned () c3
              | Blocked w c3 \<Rightarrow> Blocked w c3
              | Continue c3 \<Rightarrow> Continue c3)
         | (ReconnectReturned None, ds, c2) \<Rightarrow>
             (case drain (drain_picks env) c2 of
                (DrainReturn, c3) \<Rightarrow> Returned () c3
              | (DrainBreak, c3) \<Rightarrow>
                  (case processBacklog (backlog_now env) (backlog_write env) c3 of
                     Returned None c4 \<Rightarrow> Continue (startReadWriteRoutines c4)
                   | Returned (Some err) c4 \<Rightarrow> Continue c4
                   | Blocked w c4 \<Rightarrow> Blocked w c4
                   | Continue c4 \<Rightarrow> Continue c4))))"

text \<open>
  One round of the loop of reconnectRoutine, from its \<^verbatim>\<open>select\<close>, and the routine going
  on after it has waited for the workers.
\<close>

definition reconnectRoutine_step :: "coord_event \<Rightarrow> coord_env \<Rightarrow> WSClient \<Rightarrow> unit outcome" where
  "reconnectRoutine_step ev env c =
     (case ev of
        CoordCtxDone \<Rightarrow> (if ctxDone c then Returned () c else Blocked AtSelect c)
      | GotFailure \<Rightarrow>
          (case chan_recv (reconnectAfter c) of
             None \<Rightarrow> Blocked AtSelect c
           | Some (originalError, ra) \<Rightarrow> reconnectRoutine_failure env (c\<lparr>reconnectAfter := ra\<rparr>)))"

fun reconnectRoutine_resume :: "wait_point \<Rightarrow> coord_env \<Rightarrow> WSClient \<Rightarrow> unit outcome" where
  "reconnectRoutine_resume AtWaitGroup env c = reconnectRoutine_failure env c"
| "reconnectRoutine_resume w env c = Blocked w c"

subsection \<open>Notions used in the statements\<close>

text \<open>A round of \<^verbatim>\<open>reconnect\<close> whose timer fires and whose dial fails.\<close>

definition failed_round :: "Duration \<times> error \<Rightarrow> Duration \<times> wake" where
  "failed_round je = (fst je, WakeTimer (Inl (snd je)))"

text \<open>
  The client when reconnectRoutine reaches \<^verbatim>\<open>processBacklog\<close>: the dial returned
  connection \<open>n\<close>, the callback, if set, was launched, and \<^verbatim>\<open>reconnectAfter\<close> is drained.
\<close>

definition redialled :: "nat \<Rightarrow> WSClient \<Rightarrow> WSClient" where
  "redialled n c =
     c\<lparr>conn := Some (new_conn n),
       onReconnectCalls := (if onReconnect c then onReconnectCalls c + 1 else onReconnectCalls c),
       reconnecting := False,
       reconnectAfter := (reconnectAfter c)\<lparr>buf := []\<rparr>\<rparr>"

text \<open>What \<^verbatim>\<open>reconnect\<close> leaves alone.\<close>

definition untouched_by_reconnect :: "WSClient \<Rightarrow> WSClient \<Rightarrow> bool" where
  "untouched_by_reconnect c c' =
     (backlog c' = backlog c \<and> reconnectAfter c' = reconnectAfter c \<and> wg c' = wg c \<and>
      workerGens c' = workerGens c \<and> running c' = running c \<and>
      responsesClosed c' = responsesClosed c \<and> writeWait c' = writeWait c \<and>
      reconnecting c' = reconnecting c \<and> maxReconnectAttempts c' = maxReconnectAttempts c \<and>
      nextReqID c' = nextReqID c)"

text \<open>A send on the channel would not wait.\<close>

definition room :: "'a chan \<Rightarrow> bool" where
  "room ch = (length (buf ch) < cap ch)"

text \<open>The backlog as \<^verbatim>\<open>Start\<close> makes it, holding one request at most.\<close>

definition backlog_ok :: "WSClient \<Rightarrow> bool" where
  "backlog_ok c = (cap (backlog c) = 1 \<and> length (buf (backlog c)) \<le> 1)"

subsection \<open>Runs of the client\<close>

text \<open>
  What can happen to a client, one operation at a time: a caller's \<^verbatim>\<open>Call\<close>,
  \<^verbatim>\<open>Start\<close> or \<^verbatim>\<open>Stop\<close>, a round of a routine or a routine going on from where it
  waited, the cancellation of the context. \<open>run\<close> performs a list of operations in
  order and collects the requests that the calls handed to writeRoutine. Nothing
  constrains the order of the operations or what the environment decides in them, so the
  executions of the program are among the runs.
\<close>

datatype operation =
    DoCall select_env string "error + string"
  | DoStart "error + nat"
  | DoStop
  | DoCancel
  | DoWrite Time Time write_event
  | DoWriteResume wait_point
  | DoRead Time read_event
  | DoReadResume wait_point
  | DoReconnect coord_event coord_env
  | DoReconnectResume wait_point coord_env

fun perform :: "operation \<Rightarrow> WSClient \<Rightarrow> RPCRequest list \<times> WSClient" where
  "perform (DoCall env m payload) c =
     ((case handed (Call c env m payload) of None \<Rightarrow> [] | Some request \<Rightarrow> [request]),
      client_after (Call c env m payload))"
| "perform (DoStart d) c = ([], snd (Start d c))"
| "perform DoStop c = ([], state_of (Stop c))"
| "perform DoCancel c = ([], c\<lparr>ctxDone := True\<rparr>)"
| "perform (DoWrite t1 t2 ev) c = ([], state_of (writeRoutine_step t1 t2 ev c))"
| "perform (DoWriteResume w) c = ([], state_of (writeRoutine_resume w c))"
| "perform (DoRead now ev) c = ([], state_of (readRoutine_step now ev c))"
| "perform (DoReadResume w) c = ([], state_of (readRoutine_resume w c))"
| "perform (DoReconnect ev env) c = ([], state_of (reconnectRoutine_step ev env c))"
| "perform (DoReconnectResume w env) c = ([], state_of (reconnectRoutine_resume w env c))"

fun run :: "operation list \<Rightarrow> WSClient \<Rightarrow> RPCRequest list \<times> WSClient" where
  "run [] c = ([], c)"
| "run (x # xs) c =
     (case perform x c of (requests, c') \<Rightarrow>
        (case run xs c' of (requests', c'') \<Rightarrow> (requests @ requests', c'')))"


subsection \<open>A run: a request fails mid-transmission\<close>

text \<open>
  A client with the default options is started on connection 1. A caller gives request 5
  to \<^verbatim>\<open>Send\<close>; writeRoutine receives it and the write fails: the request goes to the backlog, the failure to
  \<^verbatim>\<open>reconnectAfter\<close>, the connection is closed. reconnectRoutine takes the failure and
  waits for the workers. readRoutine fails to read from the closed connection and
  returns. reconnectRoutine then goes on: it redials and gets connection 2;
  \<open>retry_env res\<close> fixes the result \<open>res\<close> of writing the backlog on it.
\<close>

definition broken_pipe :: error where
  "broken_pipe = IOError ''broken pipe''"

definition request5 :: RPCRequest where
  "request5 = \<lparr>ID = 5, Method = ''status'', Params = ''{}''\<rparr>"

definition started :: WSClient where
  "started = snd (Start (Inr 1) NewWS)"

definition after_failed_send :: WSClient where
  "after_failed_send =
     state_of (writeRoutine_step 0 0 (GotRequest request5 (Some broken_pipe)) started)"

definition retry_env :: "error option \<Rightarrow> coord_env" where
  "retry_env res =
     \<lparr>reconnect_rounds = [(0, WakeTimer (Inr 2))], drain_picks = [], backlog_now = 0,
      backlog_write = res\<rparr>"

definition coordinator_waiting :: WSClient where
  "coordinator_waiting =
     state_of (reconnectRoutine_step GotFailure (retry_env None) after_failed_send)"

definition workers_gone :: WSClient where
  "workers_gone =
     state_of (readRoutine_step 0 (ReadError (IOError ''use of closed network connection''))
       coordinator_waiting)"



subsection \<open>A run: keepalive\<close>

text \<open>
  A client that pings every 50 ms, started on connection 1; the same client after its
  readRoutine has read an abnormal closure (code 1006) and signalled it; a
  \<^verbatim>\<open>select\<close> of \<^verbatim>\<open>Send\<close> in which writeRoutine receives, and one in which the caller's
  context is cancelled while writeRoutine is not receiving.
\<close>

definition pinging :: WSClient where
  "pinging = snd (Start (Inr 1) (NewWSWithOptions (DefaultWSOptions\<lparr>PingPeriod := 50000000\<rparr>)))"



definition cancelled_env :: select_env where
  "cancelled_env =
     \<lparr>writer_ready = False, ctx_done = Some (CtxError ''context canceled''), pick_send = False\<rparr>"


definition read_signal_taken :: WSClient where
  "read_signal_taken =
     state_of (reconnectRoutine_step GotFailure (retry_env None)
       (state_of (readRoutine_step 0 (ReadError (CloseError 1006)) after_failed_send)))"


section \<open>Identifiers\<close>




section \<open>The reconnect loop\<close>

text \<open>One equation for each way a round of the loop can go.\<close>

lemma reconnect_loop_cancelled:
  "reconnect_loop attempt ((j, WakeCtxDone) # rs) c =
     (ReconnectReturned None, [backoffDuration j attempt], c\<lparr>ctxDone := True\<rparr>)"
  by simp

lemma reconnect_loop_dialled:
  "reconnect_loop attempt ((j, WakeTimer (Inr n)) # rs) c =
     (ReconnectReturned None, [backoffDuration j attempt],
      if onReconnect c
      then c\<lparr>conn := Some (new_conn n), onReconnectCalls := onReconnectCalls c + 1\<rparr>
      else c\<lparr>conn := Some (new_conn n)\<rparr>)"
  by (simp add: dial_def)

lemma reconnect_loop_failed:
  "reconnect_loop attempt ((j, WakeTimer (Inl err)) # rs) c =
     (if maxReconnectAttempts c < attempt + 1
      then (ReconnectReturned (Some (MaxAttempts err)), [backoffDuration j attempt], c)
      else (fst (reconnect_loop (attempt + 1) rs c),
            backoffDuration j attempt # fst (snd (reconnect_loop (attempt + 1) rs c)),
            snd (snd (reconnect_loop (attempt + 1) rs c))))"
  by (simp add: dial_def Let_def split: prod.splits)

lemma round_cases:
  obtains j where "a = (j, WakeCtxDone)"
  | j n where "a = (j, WakeTimer (Inr n))"
  | j err where "a = (j, WakeTimer (Inl err))"
proof (cases a)
  case (Pair j w)
  show ?thesis
  proof (cases w)
    case WakeCtxDone
    with Pair that(1) show ?thesis by simp
  next
    case (WakeTimer d)
    with Pair that(2,3) show ?thesis by (cases d) simp_all
  qed
qed

lemma reconnect_loop_frame:
  "untouched_by_reconnect c (snd (snd (reconnect_loop attempt rs c)))"
proof (induction rs arbitrary: attempt)
  case Nil
  show ?case by (simp add: untouched_by_reconnect_def)
next
  case (Cons a rs)
  show ?case
  proof (cases a rule: round_cases)
    case (1 j)
    then show ?thesis by (simp add: untouched_by_reconnect_def)
  next
    case (2 j n)
    then show ?thesis by (simp add: reconnect_loop_dialled untouched_by_reconnect_def del: reconnect_loop.simps)
  next
    case (3 j err)
    then show ?thesis
      using Cons.IH [of "attempt + 1"]
      by (simp add: reconnect_loop_failed untouched_by_reconnect_def del: reconnect_loop.simps)
  qed
qed

lemma reconnect_loop_nil_result:
  "fst (reconnect_loop attempt rs c) = ReconnectReturned None \<Longrightarrow>
     ctxDone (snd (snd (reconnect_loop attempt rs c))) \<or>
     (\<exists>n. conn (snd (snd (reconnect_loop attempt rs c))) = Some (new_conn n))"
proof (induction rs arbitrary: attempt)
  case Nil
  then show ?case by simp
next
  case (Cons a rs)
  show ?case
  proof (cases a rule: round_cases)
    case (1 j)
    then show ?thesis by simp
  next
    case (2 j n)
    then show ?thesis by (auto simp add: reconnect_loop_dialled simp del: reconnect_loop.simps)
  next
    case (3 j err)
    then show ?thesis
      using Cons.IH [of "attempt + 1"] Cons.prems
      by (simp add: reconnect_loop_failed del: reconnect_loop.simps split: if_splits)
  qed
qed

lemma reconnect_loop_failures:
  "attempt + length fs \<le> maxReconnectAttempts c \<Longrightarrow>
     fst (reconnect_loop attempt (map failed_round fs @ rest) c) =
       fst (reconnect_loop (attempt + length fs) rest c) \<and>
     snd (snd (reconnect_loop attempt (map failed_round fs @ rest) c)) =
       snd (snd (reconnect_loop (attempt + length fs) rest c))"
proof (induction fs arbitrary: attempt)
  case Nil
  then show ?case by simp
next
  case (Cons f fs)
  then have "(attempt + 1) + length fs \<le> maxReconnectAttempts c" by simp
  from Cons.IH [OF this] Cons.prems show ?case
    by (simp add: failed_round_def reconnect_loop_failed del: reconnect_loop.simps)
qed


section \<open>Draining, and one round of reconnectRoutine\<close>

lemma drain_loop_running: "drain_loop False picks es = (DrainBreak, [])"
  by (induction es) simp_all

lemma drain_loop_done: "fst (drain_loop True picks es) = DrainReturn"
  by (induction es arbitrary: picks) (simp_all split: list.splits bool.splits)

lemma drain_break:
  "fst (drain picks c) = DrainBreak \<longleftrightarrow> \<not> ctxDone c"
  using drain_loop_done [of picks "buf (reconnectAfter c)"]
  by (cases "ctxDone c") (auto simp add: drain_def drain_loop_running split: prod.splits)

lemma drain_running:
  "\<not> ctxDone c \<Longrightarrow>
     drain picks c = (DrainBreak, c\<lparr>reconnectAfter := (reconnectAfter c)\<lparr>buf := []\<rparr>\<rparr>)"
  by (simp add: drain_def drain_loop_running)

lemma drain_done:
  "ctxDone c \<Longrightarrow> fst (drain picks c) = DrainReturn"
  using drain_break [of picks c] by (cases "fst (drain picks c)") simp_all

lemma reconnect_eq:
  "reconnect rs c =
     (fst (reconnect_loop 0 rs (c\<lparr>reconnecting := True\<rparr>)),
      fst (snd (reconnect_loop 0 rs (c\<lparr>reconnecting := True\<rparr>))),
      (if fst (reconnect_loop 0 rs (c\<lparr>reconnecting := True\<rparr>)) = StillWaiting
       then snd (snd (reconnect_loop 0 rs (c\<lparr>reconnecting := True\<rparr>)))
       else (snd (snd (reconnect_loop 0 rs (c\<lparr>reconnecting := True\<rparr>))))\<lparr>reconnecting := False\<rparr>))"
  by (simp add: reconnect_def split: prod.splits reconnect_result.splits)

lemma reconnect_frame:
  "backlog (snd (snd (reconnect rs c))) = backlog c \<and>
   reconnectAfter (snd (snd (reconnect rs c))) = reconnectAfter c \<and>
   wg (snd (snd (reconnect rs c))) = wg c \<and>
   workerGens (snd (snd (reconnect rs c))) = workerGens c \<and>
   running (snd (snd (reconnect rs c))) = running c \<and>
   responsesClosed (snd (snd (reconnect rs c))) = responsesClosed c \<and>
   writeWait (snd (snd (reconnect rs c))) = writeWait c \<and>
   nextReqID (snd (snd (reconnect rs c))) = nextReqID c"
  using reconnect_loop_frame [of "c\<lparr>reconnecting := True\<rparr>" 0 rs]
  by (simp add: reconnect_eq untouched_by_reconnect_def)

lemma reconnect_nil_result:
  assumes "fst (reconnect rs c) = ReconnectReturned None"
  shows "ctxDone (snd (snd (reconnect rs c))) \<or>
         (\<exists>n. conn (snd (snd (reconnect rs c))) = Some (new_conn n))"
  using assms reconnect_loop_nil_result [of 0 rs "c\<lparr>reconnecting := True\<rparr>"]
  by (simp add: reconnect_eq)

lemma reconnect_after_failures:
  assumes "length fs \<le> maxReconnectAttempts c"
  shows "reconnect (map failed_round fs @ (j, WakeTimer (Inr n)) # rest) c =
           (ReconnectReturned None,
            fst (snd (reconnect (map failed_round fs @ (j, WakeTimer (Inr n)) # rest) c)),
            if onReconnect c
            then c\<lparr>conn := Some (new_conn n), onReconnectCalls := onReconnectCalls c + 1,
                   reconnecting := False\<rparr>
            else c\<lparr>conn := Some (new_conn n), reconnecting := False\<rparr>)"
proof -
  let ?c = "c\<lparr>reconnecting := True\<rparr>"
  have "0 + length fs \<le> maxReconnectAttempts ?c" using assms by simp
  from reconnect_loop_failures [OF this, of "(j, WakeTimer (Inr n)) # rest"]
  show ?thesis
    by (simp add: reconnect_eq reconnect_loop_dialled del: reconnect_loop.simps)
qed



lemma coordinator_after_redial:
  assumes "wg c = 0" and "\<not> ctxDone c"
    and "reconnect_rounds env = map failed_round fs @ (j, WakeTimer (Inr n)) # rest"
    and "length fs \<le> maxReconnectAttempts c"
  shows "reconnectRoutine_failure env c =
           (case processBacklog (backlog_now env) (backlog_write env) (redialled n c) of
              Returned None c4 \<Rightarrow> Continue (startReadWriteRoutines c4)
            | Returned (Some err) c4 \<Rightarrow> Continue c4
            | Blocked w c4 \<Rightarrow> Blocked w c4
            | Continue c4 \<Rightarrow> Continue c4)"
proof -
  note r = reconnect_after_failures [OF assms(4), of j n rest]
  have d: "drain (drain_picks env) (snd (snd (reconnect (reconnect_rounds env) c))) =
             (DrainBreak, redialled n c)"
    unfolding assms(3)
    apply (subst r)
    apply (subst r)
    using assms(2) by (simp add: drain_running redialled_def)
  have f: "fst (reconnect (reconnect_rounds env) c) = ReconnectReturned None"
    unfolding assms(3) by (subst r) simp
  show ?thesis
    unfolding reconnectRoutine_failure_def
    using assms(1) d f
    by (auto simp add: Let_def split: prod.splits)
qed

lemma processBacklog_empty:
  "buf (backlog c) = [] \<Longrightarrow> processBacklog now res c = Returned None c"
  by (simp add: processBacklog_def chan_recv_def)

lemma processBacklog_written:
  "buf (backlog c) = request # bs \<Longrightarrow>
     processBacklog now None c =
       Returned None
         (write_frame (JSONFrame request) None
            (set_write_deadline now (c\<lparr>backlog := (backlog c)\<lparr>buf := bs\<rparr>\<rparr>)))"
  by (simp add: processBacklog_def chan_recv_def)

lemma processBacklog_failed:
  "buf (backlog c) = request # bs \<Longrightarrow>
     processBacklog now (Some err) c =
       (let c1 = set_write_deadline now (c\<lparr>backlog := (backlog c)\<lparr>buf := bs\<rparr>\<rparr>) in
        if length (buf (reconnectAfter c)) < cap (reconnectAfter c)
        then if length bs < cap (backlog c)
             then Returned (Some err)
                    (c1\<lparr>reconnectAfter := (reconnectAfter c)\<lparr>buf := buf (reconnectAfter c) @ [err]\<rparr>,
                         backlog := (backlog c)\<lparr>buf := bs @ [request]\<rparr>\<rparr>)
             else Blocked (AtBacklog request)
                    (c1\<lparr>reconnectAfter := (reconnectAfter c)\<lparr>buf := buf (reconnectAfter c) @ [err]\<rparr>\<rparr>)
        else Blocked (AtSignal err (Some request)) c1)"
  by (simp add: processBacklog_def chan_recv_def chan_send_def set_write_deadline_def on_conn_def Let_def)

section \<open>The run, evaluated\<close>

lemma started_eq:
  "Start (Inr 1) NewWS =
     (None,
      \<lparr>running = True,
       conn = Some \<lparr>connID = 1, written = [], writeDeadline = None,
                    readDeadline = None, closed = False\<rparr>,
       ResponsesCh = [], responsesClosed = False, onReconnect = False, onReconnectCalls = 0,
       backlog = \<lparr>cap = 1, buf = []\<rparr>,
       reconnectAfter = \<lparr>cap = 1, buf = []\<rparr>,
       readRoutineQuit = False, maxReconnectAttempts = 10, wg = 2, workerGens = 1,
       ctxDone = False, sentLastPingAt = 0, reconnecting = False, nextReqID = 0,
       writeWait = 10000000000, readWait = 0, pingPeriod = 0, latencies = Some []\<rparr>)"
  by (simp add: Start_def RunState_Start_def
      NewWS_def NewWSWithOptions_def DefaultWSOptions_def Second_def dial_def new_conn_def
      startReadWriteRoutines_def make_chan_def)

lemma after_failed_send_eq:
  "after_failed_send =
     \<lparr>running = True,
      conn = Some \<lparr>connID = 1, written = [], writeDeadline = Some 10000000000,
                   readDeadline = None, closed = True\<rparr>,
      ResponsesCh = [], responsesClosed = False, onReconnect = False, onReconnectCalls = 0,
      backlog = \<lparr>cap = 1, buf = [request5]\<rparr>,
      reconnectAfter = \<lparr>cap = 1, buf = [broken_pipe]\<rparr>,
      readRoutineQuit = False, maxReconnectAttempts = 10, wg = 1, workerGens = 1,
      ctxDone = False, sentLastPingAt = 0, reconnecting = False, nextReqID = 0,
      writeWait = 10000000000, readWait = 0, pingPeriod = 0, latencies = Some []\<rparr>"
  by (simp add: after_failed_send_def started_def Start_def RunState_Start_def
      NewWS_def NewWSWithOptions_def DefaultWSOptions_def Second_def dial_def new_conn_def
      startReadWriteRoutines_def make_chan_def write_signal_def write_requeue_def chan_send_def
      writeRoutine_exit_def close_conn_def on_conn_def set_write_deadline_def word_sless_alt)

lemma coordinator_waiting_eq:
  "reconnectRoutine_step GotFailure (retry_env None) after_failed_send =
     Blocked AtWaitGroup
       \<lparr>running = True,
        conn = Some \<lparr>connID = 1, written = [], writeDeadline = Some 10000000000,
                     readDeadline = None, closed = True\<rparr>,
        ResponsesCh = [], responsesClosed = False, onReconnect = False, onReconnectCalls = 0,
        backlog = \<lparr>cap = 1, buf = [request5]\<rparr>,
        reconnectAfter = \<lparr>cap = 1, buf = []\<rparr>,
        readRoutineQuit = False, maxReconnectAttempts = 10, wg = 1, workerGens = 1,
        ctxDone = False, sentLastPingAt = 0, reconnecting = False, nextReqID = 0,
        writeWait = 10000000000, readWait = 0, pingPeriod = 0, latencies = Some []\<rparr>"
  by (simp add: after_failed_send_eq reconnectRoutine_step_def reconnectRoutine_failure_def
      chan_recv_def)

lemma workers_gone_eq:
  "workers_gone =
     \<lparr>running = True,
      conn = Some \<lparr>connID = 1, written = [], writeDeadline = Some 10000000000,
                   readDeadline = None, closed = True\<rparr>,
      ResponsesCh = [], responsesClosed = False, onReconnect = False, onReconnectCalls = 0,
      backlog = \<lparr>cap = 1, buf = [request5]\<rparr>,
      reconnectAfter = \<lparr>cap = 1, buf = []\<rparr>,
      readRoutineQuit = False, maxReconnectAttempts = 10, wg = 0, workerGens = 1,
      ctxDone = False, sentLastPingAt = 0, reconnecting = False, nextReqID = 0,
      writeWait = 10000000000, readWait = 0, pingPeriod = 0, latencies = Some []\<rparr>"
  unfolding workers_gone_def coordinator_waiting_def coordinator_waiting_eq
  by (simp add: readRoutine_exit_def close_conn_def on_conn_def set_read_deadline_def
      word_sless_alt)

lemma retry_failed_eq:
  "reconnectRoutine_resume AtWaitGroup (retry_env (Some broken_pipe)) workers_gone =
     Continue
       \<lparr>running = True,
        conn = Some \<lparr>connID = 2, written = [], writeDeadline = Some 10000000000,
                     readDeadline = None, closed = False\<rparr>,
        ResponsesCh = [], responsesClosed = False, onReconnect = False, onReconnectCalls = 0,
        backlog = \<lparr>cap = 1, buf = [request5]\<rparr>,
        reconnectAfter = \<lparr>cap = 1, buf = [broken_pipe]\<rparr>,
        readRoutineQuit = False, maxReconnectAttempts = 10, wg = 0, workerGens = 1,
        ctxDone = False, sentLastPingAt = 0, reconnecting = False, nextReqID = 0,
        writeWait = 10000000000, readWait = 0, pingPeriod = 0, latencies = Some []\<rparr>"
  by (simp add: workers_gone_eq retry_env_def reconnectRoutine_failure_def chan_recv_def
      reconnect_def dial_def new_conn_def drain_def processBacklog_def chan_send_def
      set_write_deadline_def on_conn_def word_sless_alt)

lemma retry_ok_eq:
  "reconnectRoutine_resume AtWaitGroup (retry_env None) workers_gone =
     Continue
       \<lparr>running = True,
        conn = Some \<lparr>connID = 2, written = [JSONFrame request5],
                     writeDeadline = Some 10000000000, readDeadline = None, closed = False\<rparr>,
        ResponsesCh = [], responsesClosed = False, onReconnect = False, onReconnectCalls = 0,
        backlog = \<lparr>cap = 1, buf = []\<rparr>,
        reconnectAfter = \<lparr>cap = 1, buf = []\<rparr>,
        readRoutineQuit = False, maxReconnectAttempts = 10, wg = 2, workerGens = 2,
        ctxDone = False, sentLastPingAt = 0, reconnecting = False, nextReqID = 0,
        writeWait = 10000000000, readWait = 0, pingPeriod = 0, latencies = Some []\<rparr>"
  by (simp add: workers_gone_eq retry_env_def reconnectRoutine_failure_def chan_recv_def
      reconnect_def dial_def new_conn_def drain_def processBacklog_def chan_send_def
      set_write_deadline_def on_conn_def write_frame_def startReadWriteRoutines_def
      word_sless_alt)

lemma drained_eq:
  "snd (drain [] (workers_gone\<lparr>conn := Some (new_conn 2)\<rparr>)) =
     workers_gone\<lparr>conn := Some (new_conn 2)\<rparr>"
  by (simp add: workers_gone_eq drain_def drain_loop_running)

section \<open>The backlog\<close>

lemma processBacklog_cases:
  "buf (backlog c) = request # bs \<Longrightarrow>
     processBacklog now res c = Returned None c4 \<Longrightarrow>
     res = None \<and>
     c4 = write_frame (JSONFrame request) None
            (set_write_deadline now (c\<lparr>backlog := (backlog c)\<lparr>buf := bs\<rparr>\<rparr>))"
  by (cases res)
    (auto simp add: processBacklog_written processBacklog_failed Let_def split: if_splits)

lemma processBacklog_frame:
  "workerGens (state_of (processBacklog now res c)) = workerGens c \<and>
   wg (state_of (processBacklog now res c)) = wg c \<and>
   cap (backlog (state_of (processBacklog now res c))) = cap (backlog c)"
  by (auto simp add: processBacklog_def chan_recv_def chan_send_def set_write_deadline_def
      on_conn_def write_frame_def Let_def split: list.splits option.splits)

lemma processBacklog_not_Continue: "processBacklog now res c \<noteq> Continue c'"
  by (auto simp add: processBacklog_def chan_recv_def chan_send_def Let_def
      split: list.splits option.splits)


text \<open>
  \<^bold>\<open>C9\<close>. When the write of the backlog request fails inside \<^verbatim>\<open>processBacklog\<close>,
  the request is put back before the error is returned: whenever the function returns,
  it returns that error and the request is in the backlog again (nothing was written,
  and the failure was signalled on \<^verbatim>\<open>reconnectAfter\<close>). Where reconnectRoutine calls it,
  with \<^verbatim>\<open>reconnectAfter\<close> drained, it does return.
\<close>

theorem processBacklog_requeues:
  "(buf (backlog c) = request # bs \<and> processBacklog now (Some err) c = Returned r c' \<longrightarrow>
      r = Some err \<and> buf (backlog c') = bs @ [request] \<and>
      buf (reconnectAfter c') = buf (reconnectAfter c) @ [err] \<and>
      map_option written (conn c') = map_option written (conn c)) \<and>
   (buf (backlog c) = [request] \<and> cap (backlog c) = 1 \<and>
    buf (reconnectAfter c) = [] \<and> cap (reconnectAfter c) = 1 \<longrightarrow>
      (\<exists>c''. processBacklog now (Some err) c = Returned (Some err) c'' \<and>
             buf (backlog c'') = [request]))"
proof -
  have 1: "r = Some err \<and> buf (backlog c') = bs @ [request] \<and>
      buf (reconnectAfter c') = buf (reconnectAfter c) @ [err] \<and>
      map_option written (conn c') = map_option written (conn c)"
    if b: "buf (backlog c) = request # bs" and "processBacklog now (Some err) c = Returned r c'"
    using that(2) unfolding processBacklog_failed [OF b]
    by (auto simp: Let_def set_write_deadline_def on_conn_def option.map_comp comp_def
        split: if_splits)
  have 2: "\<exists>c''. processBacklog now (Some err) c = Returned (Some err) c'' \<and>
             buf (backlog c'') = [request]"
    if b: "buf (backlog c) = [request]" and "cap (backlog c) = 1"
      and "buf (reconnectAfter c) = []" and "cap (reconnectAfter c) = 1"
    using that(2-4) unfolding processBacklog_failed [OF b] by (simp add: Let_def)
  from 1 2 show ?thesis by blast
qed

theorem processBacklog_requeues_witness:
  "buf (backlog (snd (drain [] (workers_gone\<lparr>conn := Some (new_conn 2)\<rparr>)))) = [request5] \<and>
   cap (backlog (snd (drain [] (workers_gone\<lparr>conn := Some (new_conn 2)\<rparr>)))) = 1 \<and>
   buf (reconnectAfter (snd (drain [] (workers_gone\<lparr>conn := Some (new_conn 2)\<rparr>)))) = [] \<and>
   cap (reconnectAfter (snd (drain [] (workers_gone\<lparr>conn := Some (new_conn 2)\<rparr>)))) = 1 \<and>
   (\<exists>c''. processBacklog 0 (Some broken_pipe)
            (snd (drain [] (workers_gone\<lparr>conn := Some (new_conn 2)\<rparr>))) = Returned (Some broken_pipe) c'' \<and>
          buf (backlog c'') = [request5])"
  using processBacklog_requeues [of "snd (drain [] (workers_gone\<lparr>conn := Some (new_conn 2)\<rparr>))" request5 "[]" 0
      broken_pipe "Some broken_pipe" workers_gone]
  by (simp add: drained_eq) (simp add: workers_gone_eq)


section \<open>reconnectRoutine\<close>

lemma reconnectRoutine_failure_unfold:
  "reconnectRoutine_failure env c =
     (let c2 = snd (snd (reconnect (reconnect_rounds env) c))
      in if wg c \<noteq> 0 then Blocked AtWaitGroup c
         else
           (case fst (reconnect (reconnect_rounds env) c) of
              StillWaiting \<Rightarrow> Blocked AtTimer c2
            | ReconnectReturned (Some err) \<Rightarrow>
                (case Stop c2 of
                   Returned stopErr c3 \<Rightarrow> Returned () c3
                 | Blocked w c3 \<Rightarrow> Blocked w c3
                 | Continue c3 \<Rightarrow> Continue c3)
            | ReconnectReturned None \<Rightarrow>
                (if ctxDone c2 then Returned () (snd (drain (drain_picks env) c2))
                 else
                   (case processBacklog (backlog_now env) (backlog_write env)
                           (c2\<lparr>reconnectAfter := (reconnectAfter c2)\<lparr>buf := []\<rparr>\<rparr>) of
                      Returned None c4 \<Rightarrow> Continue (startReadWriteRoutines c4)
                    | Returned (Some err) c4 \<Rightarrow> Continue c4
                    | Blocked w c4 \<Rightarrow> Blocked w c4
                    | Continue c4 \<Rightarrow> Continue c4))))"
proof -
  let ?c2 = "snd (snd (reconnect (reconnect_rounds env) c))"
  have d: "drain (drain_picks env) ?c2 =
             (DrainBreak, ?c2\<lparr>reconnectAfter := (reconnectAfter ?c2)\<lparr>buf := []\<rparr>\<rparr>)"
    if "\<not> ctxDone ?c2"
    using drain_running [OF that] .
  have e: "fst (drain (drain_picks env) ?c2) = DrainReturn" if "ctxDone ?c2"
    using drain_done [OF that] .
  show ?thesis
    using d e
    by (cases "ctxDone ?c2")
      (auto simp add: reconnectRoutine_failure_def Let_def
        split: prod.splits reconnect_result.splits option.splits)
qed

lemma reconnectRoutine_step_failure:
  "buf (reconnectAfter c) = sig # es \<Longrightarrow>
     reconnectRoutine_step GotFailure env c =
       reconnectRoutine_failure env (c\<lparr>reconnectAfter := (reconnectAfter c)\<lparr>buf := es\<rparr>\<rparr>)"
  by (simp add: reconnectRoutine_step_def chan_recv_def)


lemma Stop_cases:
  "Stop c = Returned (Some NotRunning) c \<or>
   Stop c = Returned None (c\<lparr>running := False, responsesClosed := True\<rparr>) \<or>
   Stop c = Blocked AtWaitGroup (c\<lparr>running := False\<rparr>)"
  by (simp add: Stop_def RunState_Stop_def)


lemma written_first:
  assumes "reconnectRoutine_failure env c = Continue c'"
    and "workerGens c' \<noteq> workerGens c"
    and "buf (backlog c) = request # bs"
  shows "(\<exists>k. conn c' = Some k \<and> written k = [JSONFrame request] \<and> \<not> closed k) \<and>
         buf (backlog c') = bs \<and> workerGens c' = workerGens c + 1 \<and> wg c' = 2"
proof -
  let ?R = "reconnect (reconnect_rounds env) c"
  let ?c2 = "snd (snd ?R)"
  let ?c3 = "?c2\<lparr>reconnectAfter := (reconnectAfter ?c2)\<lparr>buf := []\<rparr>\<rparr>"
  let ?P = "processBacklog (backlog_now env) (backlog_write env) ?c3"
  note fr = reconnect_frame [of "reconnect_rounds env" c]
  have w0: "wg c = 0"
    using assms(1) by (auto simp add: reconnectRoutine_failure_unfold Let_def split: if_splits)
  have r: "fst ?R = ReconnectReturned None"
    using assms(1) w0 Stop_cases [of ?c2]
    by (auto simp add: reconnectRoutine_failure_unfold Let_def
        split: reconnect_result.splits option.splits)
  have nd: "\<not> ctxDone ?c2"
    using assms(1) w0 r
    by (auto simp add: reconnectRoutine_failure_unfold Let_def split: if_splits)
  have step: "reconnectRoutine_failure env c =
      (case ?P of
         Returned None c4 \<Rightarrow> Continue (startReadWriteRoutines c4)
       | Returned (Some err) c4 \<Rightarrow> Continue c4
       | Blocked w c4 \<Rightarrow> Blocked w c4
       | Continue c4 \<Rightarrow> Continue c4)"
    using w0 r nd by (simp add: reconnectRoutine_failure_unfold Let_def)
  have g: "workerGens (state_of ?P) = workerGens c" "wg (state_of ?P) = 0"
    using processBacklog_frame [of "backlog_now env" "backlog_write env" ?c3] fr w0 by simp_all
  obtain c4 where p: "?P = Returned None c4" and c': "c' = startReadWriteRoutines c4"
    using assms(1,2) g processBacklog_not_Continue [of "backlog_now env" "backlog_write env" ?c3]
    unfolding step
    by (cases ?P) (auto split: option.splits)
  have b3: "buf (backlog ?c3) = request # bs"
    using fr assms(3) by simp
  from reconnect_nil_result [OF r] nd obtain n where n: "conn ?c2 = Some (new_conn n)"
    by blast
  from processBacklog_cases [OF b3 p]
  have c4: "c4 = write_frame (JSONFrame request) None
            (set_write_deadline (backlog_now env) (?c3\<lparr>backlog := (backlog ?c3)\<lparr>buf := bs\<rparr>\<rparr>))"
    by simp
  have "conn c' = Some ((new_conn n)\<lparr>writeDeadline :=
           (if 0 <s writeWait ?c3 then Some (backlog_now env + sint (writeWait ?c3)) else None),
           written := [JSONFrame request]\<rparr>)"
    unfolding c' c4 using n
    by (simp add: startReadWriteRoutines_def write_frame_def set_write_deadline_def on_conn_def
        new_conn_def)
  moreover have "buf (backlog c') = bs" "workerGens c' = workerGens c + 1" "wg c' = 2"
    unfolding c' using g p
    by (simp_all add: c4 startReadWriteRoutines_def write_frame_def set_write_deadline_def on_conn_def)
  ultimately show ?thesis by (simp add: new_conn_def)
qed

text \<open>
  \<^bold>\<open>C1\<close> (amended). When, the workers having exited, the redial succeeds and the
  backlog request cannot be written on the new connection, reconnectRoutine does not
  start the worker pair, and it does not stop the client either: \<^verbatim>\<open>processBacklog\<close> has
  put the failure on \<^verbatim>\<open>reconnectAfter\<close> and the request back in the backlog, the routine
  goes back to its \<^verbatim>\<open>select\<close>, and its next round takes that failure and is in
  \<^verbatim>\<open>reconnect\<close> again.
\<close>

theorem failed_retransmission_signals_again:
  assumes "wg c = 0" and "\<not> ctxDone c"
    and "reconnect_rounds env = map failed_round fs @ (j, WakeTimer (Inr n)) # rest"
    and "length fs \<le> maxReconnectAttempts c"
    and "buf (backlog c) = [request]" and "cap (backlog c) = 1" and "cap (reconnectAfter c) = 1"
    and "backlog_write env = Some err"
  shows "\<exists>c'. reconnectRoutine_failure env c = Continue c' \<and>
           workerGens c' = workerGens c \<and> wg c' = 0 \<and>
           running c' = running c \<and> responsesClosed c' = responsesClosed c \<and>
           buf (reconnectAfter c') = [err] \<and> buf (backlog c') = [request] \<and>
           (\<forall>env'. reconnect_rounds env' = [] \<longrightarrow>
              (\<exists>c''. reconnectRoutine_step GotFailure env' c' = Blocked AtTimer c'' \<and>
                     reconnecting c''))"
proof -
  have b: "buf (backlog (redialled n c)) = [request]" "cap (backlog (redialled n c)) = 1"
    "buf (reconnectAfter (redialled n c)) = []" "cap (reconnectAfter (redialled n c)) = 1"
    using assms(5-7) by (simp_all add: redialled_def)
  let ?c1 = "set_write_deadline (backlog_now env)
               ((redialled n c)\<lparr>backlog := (backlog (redialled n c))\<lparr>buf := []\<rparr>\<rparr>)"
  let ?c' = "?c1\<lparr>reconnectAfter := (reconnectAfter (redialled n c))\<lparr>buf := [err]\<rparr>,
                  backlog := (backlog (redialled n c))\<lparr>buf := [request]\<rparr>\<rparr>"
  have pb: "processBacklog (backlog_now env) (Some err) (redialled n c) = Returned (Some err) ?c'"
    using processBacklog_failed [OF b(1), of "backlog_now env" err] b by (simp add: Let_def)
  have step: "reconnectRoutine_failure env c = Continue ?c'"
    using coordinator_after_redial [OF assms(1-4)] pb assms(8) by simp
  have frame: "workerGens ?c' = workerGens c" "wg ?c' = 0" "running ?c' = running c"
    "responsesClosed ?c' = responsesClosed c" "buf (reconnectAfter ?c') = [err]"
    "buf (backlog ?c') = [request]"
    using assms(1) by (simp_all add: redialled_def set_write_deadline_def on_conn_def)
  have again: "\<exists>c''. reconnectRoutine_step GotFailure env' ?c' = Blocked AtTimer c'' \<and> reconnecting c''"
    if "reconnect_rounds env' = []" for env'
    using that frame(2,5)
    by (simp add: reconnectRoutine_step_def reconnectRoutine_failure_def chan_recv_def
        reconnect_def)
  from step frame again show ?thesis by blast
qed

theorem failed_retransmission_signals_again_witness:
  "wg workers_gone = 0 \<and> \<not> ctxDone workers_gone \<and>
   reconnect_rounds (retry_env (Some broken_pipe)) = map failed_round [] @ [(0, WakeTimer (Inr 2))] \<and>
   length ([] :: (Duration \<times> error) list) \<le> maxReconnectAttempts workers_gone \<and>
   buf (backlog workers_gone) = [request5] \<and> cap (backlog workers_gone) = 1 \<and>
   cap (reconnectAfter workers_gone) = 1 \<and>
   backlog_write (retry_env (Some broken_pipe)) = Some broken_pipe \<and>
   (\<exists>c'. reconnectRoutine_failure (retry_env (Some broken_pipe)) workers_gone = Continue c' \<and>
         workerGens c' = workerGens workers_gone \<and> running c' \<and>
         buf (reconnectAfter c') = [broken_pipe] \<and> buf (backlog c') = [request5])"
proof -
  have "\<exists>c'. reconnectRoutine_failure (retry_env (Some broken_pipe)) workers_gone = Continue c' \<and>
         workerGens c' = workerGens workers_gone \<and> running c' \<and>
         buf (reconnectAfter c') = [broken_pipe] \<and> buf (backlog c') = [request5]"
    using failed_retransmission_signals_again [of workers_gone "retry_env (Some broken_pipe)"
        "[]" 0 2 "[]" request5 broken_pipe]
    by (simp add: workers_gone_eq retry_env_def) blast
  then show ?thesis
    by (simp add: workers_gone_eq retry_env_def)
qed

text \<open>
  The claim as it was stated fails on the run above: after the failed retransmission the
  client is running and active, the response channel is open, and a new failure signal
  is waiting.
\<close>

theorem failed_retransmission_client_not_stopped:
  "reconnectRoutine_resume AtWaitGroup (retry_env (Some broken_pipe)) workers_gone =
     Continue (state_of (reconnectRoutine_resume AtWaitGroup (retry_env (Some broken_pipe)) workers_gone)) \<and>
   running (state_of (reconnectRoutine_resume AtWaitGroup (retry_env (Some broken_pipe)) workers_gone)) \<and>
   IsActive (state_of (reconnectRoutine_resume AtWaitGroup (retry_env (Some broken_pipe)) workers_gone)) \<and>
   \<not> responsesClosed (state_of (reconnectRoutine_resume AtWaitGroup (retry_env (Some broken_pipe)) workers_gone)) \<and>
   buf (reconnectAfter (state_of (reconnectRoutine_resume AtWaitGroup (retry_env (Some broken_pipe)) workers_gone))) = [broken_pipe]"
  unfolding retry_failed_eq by (simp add: IsActive_def IsRunning_def IsReconnecting_def)



section \<open>The backlog holds one request\<close>

lemma backlog_ok_write_requeue:
  "backlog_ok c \<Longrightarrow> backlog_ok (state_of (write_requeue rq c))"
  by (auto simp add: backlog_ok_def write_requeue_def chan_send_def writeRoutine_exit_def
      close_conn_def on_conn_def split: option.splits)

lemma backlog_ok_write_signal:
  "backlog_ok c \<Longrightarrow> backlog_ok (state_of (write_signal err rq c))"
proof -
  assume a: "backlog_ok c"
  show ?thesis
  proof (cases "chan_send (reconnectAfter c) err")
    case None
    with a show ?thesis by (simp add: write_signal_def)
  next
    case (Some ra)
    have "backlog_ok (c\<lparr>reconnectAfter := ra\<rparr>)" using a by (simp add: backlog_ok_def)
    from backlog_ok_write_requeue [OF this] Some show ?thesis by (simp add: write_signal_def)
  qed
qed

lemma backlog_ok_set_write_deadline:
  "backlog_ok (set_write_deadline t c) = backlog_ok c"
  by (simp add: backlog_ok_def set_write_deadline_def on_conn_def)

lemma backlog_ok_writeRoutine_step:
  assumes "backlog_ok c"
  shows "backlog_ok (state_of (writeRoutine_step t1 t2 ev c))"
proof (cases ev)
  case (GotRequest request res)
  show ?thesis
  proof (cases res)
    case None
    with GotRequest assms show ?thesis
      by (simp add: backlog_ok_def write_frame_def set_write_deadline_def on_conn_def)
  next
    case (Some err)
    with GotRequest assms
      backlog_ok_write_signal [of "set_write_deadline t1 c" err "Some request"]
    show ?thesis by (simp add: backlog_ok_set_write_deadline)
  qed
next
  case (Tick res)
  show ?thesis
  proof (cases res)
    case None
    with Tick assms show ?thesis
      by (simp add: backlog_ok_def write_frame_def set_write_deadline_def on_conn_def)
  next
    case (Some err)
    with Tick assms backlog_ok_write_signal [of "set_write_deadline t1 c" err None]
    show ?thesis by (simp add: backlog_ok_set_write_deadline)
  qed
next
  case ReadQuit
  with assms show ?thesis
    by (simp add: backlog_ok_def writeRoutine_exit_def close_conn_def on_conn_def)
next
  case (WriterCtxDone res)
  with assms show ?thesis
    by (cases res)
      (simp_all add: backlog_ok_def writeRoutine_exit_def close_conn_def on_conn_def
        write_frame_def)
qed

lemma backlog_ok_writeRoutine_resume:
  "backlog_ok c \<Longrightarrow> backlog_ok (state_of (writeRoutine_resume w c))"
  by (cases w) (simp_all add: backlog_ok_write_signal backlog_ok_write_requeue)

lemma backlog_ok_read_signal:
  "backlog_ok c \<Longrightarrow> backlog_ok (state_of (read_signal err c))"
  by (auto simp add: backlog_ok_def read_signal_def chan_send_def readRoutine_exit_def
      close_conn_def on_conn_def split: option.splits)

lemma backlog_ok_set_read_deadline:
  "backlog_ok (set_read_deadline t c) = backlog_ok c"
  by (simp add: backlog_ok_def set_read_deadline_def on_conn_def)

lemma backlog_ok_readRoutine_step:
  assumes "backlog_ok c"
  shows "backlog_ok (state_of (readRoutine_step now ev c))"
proof (cases ev)
  case (ReadError err)
  have "backlog_ok ((set_read_deadline now c)\<lparr>readRoutineQuit := True\<rparr>)"
    using assms backlog_ok_set_read_deadline [of now c] by (simp add: backlog_ok_def)
  from backlog_ok_read_signal [OF this, of err] ReadError assms show ?thesis
    using backlog_ok_set_read_deadline [of now c]
    by (simp add: Let_def) (simp add: backlog_ok_def readRoutine_exit_def close_conn_def on_conn_def)
next
  case (Pong t)
  with assms show ?thesis by (simp add: backlog_ok_def)
next
  case (ReadData p taken)
  with assms backlog_ok_set_read_deadline [of now c] show ?thesis
    by (cases p)
      (simp_all add: Let_def, simp_all add: backlog_ok_def readRoutine_exit_def close_conn_def on_conn_def)
qed

lemma backlog_ok_readRoutine_resume:
  "backlog_ok c \<Longrightarrow> backlog_ok (state_of (readRoutine_resume w c))"
  by (cases w) (simp_all add: backlog_ok_read_signal)

lemma backlog_ok_processBacklog:
  "backlog_ok c \<Longrightarrow> backlog_ok (state_of (processBacklog now res c))"
  by (auto simp add: backlog_ok_def processBacklog_def chan_recv_def chan_send_def
      set_write_deadline_def on_conn_def write_frame_def Let_def
      split: list.splits option.splits)

lemma backlog_ok_Stop: "backlog_ok c \<Longrightarrow> backlog_ok (state_of (Stop c))"
  using Stop_cases [of c] by (auto simp add: backlog_ok_def)

lemma backlog_ok_drain: "backlog_ok c \<Longrightarrow> backlog_ok (snd (drain picks c))"
  by (simp add: backlog_ok_def drain_def split: prod.splits)

lemma backlog_ok_reconnectRoutine_failure:
  assumes "backlog_ok c"
  shows "backlog_ok (state_of (reconnectRoutine_failure env c))"
proof -
  let ?R = "reconnect (reconnect_rounds env) c"
  let ?c2 = "snd (snd ?R)"
  let ?c3 = "?c2\<lparr>reconnectAfter := (reconnectAfter ?c2)\<lparr>buf := []\<rparr>\<rparr>"
  let ?P = "processBacklog (backlog_now env) (backlog_write env) ?c3"
  have 2: "backlog_ok ?c2"
    using assms reconnect_frame [of "reconnect_rounds env" c] by (simp add: backlog_ok_def)
  then have 3: "backlog_ok ?c3" by (simp add: backlog_ok_def)
  note s = backlog_ok_Stop [OF 2] and d = backlog_ok_drain [OF 2, of "drain_picks env"]
    and p = backlog_ok_processBacklog [OF 3, of "backlog_now env" "backlog_write env"]
  have 4: "backlog_ok (startReadWriteRoutines (state_of ?P))"
    using p by (simp add: backlog_ok_def startReadWriteRoutines_def)
  show ?thesis
    unfolding reconnectRoutine_failure_unfold
    using assms 2 s d p 4
    by (cases "fst ?R"; cases "Stop ?c2"; cases ?P)
      (auto simp add: Let_def split: option.splits)
qed

lemma backlog_ok_reconnectRoutine_step:
  assumes "backlog_ok c"
  shows "backlog_ok (state_of (reconnectRoutine_step ev env c))"
proof (cases ev)
  case CoordCtxDone
  with assms show ?thesis by (simp add: reconnectRoutine_step_def)
next
  case GotFailure
  show ?thesis
  proof (cases "buf (reconnectAfter c)")
    case Nil
    with GotFailure assms show ?thesis by (simp add: reconnectRoutine_step_def chan_recv_def)
  next
    case (Cons sig es)
    have "backlog_ok (c\<lparr>reconnectAfter := (reconnectAfter c)\<lparr>buf := es\<rparr>\<rparr>)"
      using assms by (simp add: backlog_ok_def)
    from backlog_ok_reconnectRoutine_failure [OF this, of env] show ?thesis
      unfolding GotFailure reconnectRoutine_step_failure [OF Cons] .
  qed
qed

lemma backlog_ok_reconnectRoutine_resume:
  "backlog_ok c \<Longrightarrow> backlog_ok (state_of (reconnectRoutine_resume w env c))"
  by (cases w) (simp_all add: backlog_ok_reconnectRoutine_failure)

lemma backlog_ok_Call: "backlog_ok c \<Longrightarrow> backlog_ok (client_after (Call c env m payload))"
  by (auto simp add: backlog_ok_def Call_def Send_def nextRequestID_def MapToRequest_def
      split: sum.splits option.splits)

lemma backlog_ok_Start: "fst (Start (Inr n) c) = None \<Longrightarrow> backlog_ok (snd (Start (Inr n) c))"
  by (auto simp add: backlog_ok_def Start_def RunState_Start_def dial_def make_chan_def
      startReadWriteRoutines_def split: if_splits)

section \<open>The workers\<close>

lemma pinging_eq:
  "pinging =
     \<lparr>running = True,
      conn = Some \<lparr>connID = 1, written = [], writeDeadline = None,
                   readDeadline = None, closed = False\<rparr>,
      ResponsesCh = [], responsesClosed = False, onReconnect = False, onReconnectCalls = 0,
      backlog = \<lparr>cap = 1, buf = []\<rparr>,
      reconnectAfter = \<lparr>cap = 1, buf = []\<rparr>,
      readRoutineQuit = False, maxReconnectAttempts = 10, wg = 2, workerGens = 1,
      ctxDone = False, sentLastPingAt = 0, reconnecting = False, nextReqID = 0,
      writeWait = 10000000000, readWait = 0, pingPeriod = 50000000, latencies = Some []\<rparr>"
  by (simp add: pinging_def Start_def RunState_Start_def
      NewWSWithOptions_def DefaultWSOptions_def Second_def dial_def new_conn_def
      startReadWriteRoutines_def make_chan_def)


lemma read_timeout_eq:
  "readRoutine_step 0 (ReadError (IOError ''i/o timeout'')) pinging =
     Returned ()
       \<lparr>running = True,
        conn = Some \<lparr>connID = 1, written = [], writeDeadline = None,
                     readDeadline = None, closed = True\<rparr>,
        ResponsesCh = [], responsesClosed = False, onReconnect = False, onReconnectCalls = 0,
        backlog = \<lparr>cap = 1, buf = []\<rparr>,
        reconnectAfter = \<lparr>cap = 1, buf = []\<rparr>,
        readRoutineQuit = False, maxReconnectAttempts = 10, wg = 1, workerGens = 1,
        ctxDone = False, sentLastPingAt = 0, reconnecting = False, nextReqID = 0,
        writeWait = 10000000000, readWait = 0, pingPeriod = 50000000, latencies = Some []\<rparr>"
  by (simp add: pinging_eq readRoutine_exit_def close_conn_def on_conn_def set_read_deadline_def
      word_sless_alt)


lemma read_signal_taken_eq:
  "read_signal_taken =
     \<lparr>running = True,
      conn = Some \<lparr>connID = 1, written = [], writeDeadline = Some 10000000000,
                   readDeadline = None, closed = True\<rparr>,
      ResponsesCh = [], responsesClosed = False, onReconnect = False, onReconnectCalls = 0,
      backlog = \<lparr>cap = 1, buf = [request5]\<rparr>,
      reconnectAfter = \<lparr>cap = 1, buf = []\<rparr>,
      readRoutineQuit = True, maxReconnectAttempts = 10, wg = 1, workerGens = 1,
      ctxDone = False, sentLastPingAt = 0, reconnecting = False, nextReqID = 0,
      writeWait = 10000000000, readWait = 0, pingPeriod = 0, latencies = Some []\<rparr>"
  by (simp add: read_signal_taken_def after_failed_send_eq read_signal_def chan_send_def
      set_read_deadline_def on_conn_def reconnectRoutine_step_def reconnectRoutine_failure_def
      chan_recv_def CloseNormalClosure_def word_sless_alt)


lemma read_signal_eq:
  "read_signal err c =
     (if room (reconnectAfter c)
      then Returned ()
             (readRoutine_exit
                (c\<lparr>reconnectAfter := (reconnectAfter c)\<lparr>buf := buf (reconnectAfter c) @ [err]\<rparr>\<rparr>))
      else Blocked (AtSignal err None) c)"
  by (simp add: read_signal_def chan_send_def room_def)





text \<open>
  \<^bold>\<open>C2\<close> (amended). The read errors on which readRoutine signals a failure are the
  close errors whose code is not the normal closure (1000). On such an error it closes
  \<^verbatim>\<open>readRoutineQuit\<close>, sends the error on \<^verbatim>\<open>reconnectAfter\<close> (at once when the channel
  has room, and once there is room when it is full) and returns. On every other read error,
  the normal closure and also any error that is not a close error, it returns quietly:
  \<^verbatim>\<open>readRoutineQuit\<close> and \<^verbatim>\<open>reconnectAfter\<close> are as before.
\<close>

theorem read_failure_signalled_on_close_error:
  "(IsUnexpectedCloseError err [CloseNormalClosure] \<longleftrightarrow>
      (\<exists>code. err = CloseError code \<and> code \<noteq> 1000)) \<and>
   (\<not> IsUnexpectedCloseError err [CloseNormalClosure] \<longrightarrow>
      (\<exists>c'. readRoutine_step now (ReadError err) c = Returned () c' \<and>
            reconnectAfter c' = reconnectAfter c \<and> readRoutineQuit c' = readRoutineQuit c \<and>
            wg c' = wg c - 1)) \<and>
   (IsUnexpectedCloseError err [CloseNormalClosure] \<longrightarrow>
      readRoutineQuit (state_of (readRoutine_step now (ReadError err) c)) \<and>
      (room (reconnectAfter c) \<longrightarrow>
         (\<exists>c'. readRoutine_step now (ReadError err) c = Returned () c' \<and>
               buf (reconnectAfter c') = buf (reconnectAfter c) @ [err] \<and>
               wg c' = wg c - 1)) \<and>
      (\<not> room (reconnectAfter c) \<longrightarrow>
         (\<exists>c'. readRoutine_step now (ReadError err) c = Blocked (AtSignal err None) c' \<and>
               reconnectAfter c' = reconnectAfter c) \<and>
         (\<forall>c2. room (reconnectAfter c2) \<longrightarrow>
            (\<exists>c3. readRoutine_resume (AtSignal err None) c2 = Returned () c3 \<and>
                  buf (reconnectAfter c3) = buf (reconnectAfter c2) @ [err]))))"
proof -
  have 1: "IsUnexpectedCloseError err [CloseNormalClosure] \<longleftrightarrow>
      (\<exists>code. err = CloseError code \<and> code \<noteq> 1000)"
    by (cases err) (simp_all add: CloseNormalClosure_def)
  have 2: "\<exists>c'. readRoutine_step now (ReadError err) c = Returned () c' \<and>
            reconnectAfter c' = reconnectAfter c \<and> readRoutineQuit c' = readRoutineQuit c \<and>
            wg c' = wg c - 1"
    if "\<not> IsUnexpectedCloseError err [CloseNormalClosure]"
    using that
    by (simp add: Let_def readRoutine_exit_def close_conn_def set_read_deadline_def on_conn_def)
  let ?s = "readRoutine_step now (ReadError err) c"
  let ?c1 = "(set_read_deadline now c)\<lparr>readRoutineQuit := True\<rparr>"
  have s: "?s = read_signal err ?c1" if "IsUnexpectedCloseError err [CloseNormalClosure]"
    using that by (simp add: Let_def)
  have ra: "reconnectAfter ?c1 = reconnectAfter c" "wg ?c1 = wg c"
    by (simp_all add: set_read_deadline_def on_conn_def)
  have 3: "readRoutineQuit (state_of ?s)" if u: "IsUnexpectedCloseError err [CloseNormalClosure]"
    unfolding s [OF u] read_signal_eq
    by (simp add: readRoutine_exit_def close_conn_def on_conn_def)
  have 4: "\<exists>c'. ?s = Returned () c' \<and>
               buf (reconnectAfter c') = buf (reconnectAfter c) @ [err] \<and> wg c' = wg c - 1"
    if u: "IsUnexpectedCloseError err [CloseNormalClosure]" and "room (reconnectAfter c)"
    unfolding s [OF u] read_signal_eq using that(2) ra
    by (simp add: readRoutine_exit_def close_conn_def on_conn_def)
  have 5: "\<exists>c'. ?s = Blocked (AtSignal err None) c' \<and> reconnectAfter c' = reconnectAfter c"
    if u: "IsUnexpectedCloseError err [CloseNormalClosure]" and "\<not> room (reconnectAfter c)"
    unfolding s [OF u] read_signal_eq using that(2) ra by simp
  have 6: "\<exists>c3. readRoutine_resume (AtSignal err None) c2 = Returned () c3 \<and>
                  buf (reconnectAfter c3) = buf (reconnectAfter c2) @ [err]"
    if "room (reconnectAfter c2)" for c2
    using that by (simp add: read_signal_eq readRoutine_exit_def close_conn_def on_conn_def)
  from 1 2 3 4 5 6 show ?thesis by blast
qed

theorem read_failure_signalled_on_close_error_witness:
  "IsUnexpectedCloseError (CloseError 1006) [CloseNormalClosure] \<and>
   \<not> IsUnexpectedCloseError (CloseError 1000) [CloseNormalClosure] \<and>
   \<not> IsUnexpectedCloseError (IOError ''i/o timeout'') [CloseNormalClosure] \<and>
   room (reconnectAfter pinging) \<and> \<not> room (reconnectAfter after_failed_send) \<and>
   (\<exists>c'. readRoutine_step 0 (ReadError (CloseError 1006)) pinging = Returned () c' \<and>
         buf (reconnectAfter c') = [CloseError 1006] \<and> wg c' = 1) \<and>
   readRoutineQuit (state_of (readRoutine_step 0 (ReadError (CloseError 1006)) pinging)) \<and>
   (\<exists>c'. readRoutine_step 0 (ReadError (CloseError 1000)) pinging = Returned () c' \<and>
         buf (reconnectAfter c') = [] \<and> \<not> readRoutineQuit c') \<and>
   (\<exists>c'. readRoutine_step 0 (ReadError (IOError ''i/o timeout'')) pinging = Returned () c' \<and>
         buf (reconnectAfter c') = [] \<and> \<not> readRoutineQuit c') \<and>
   (\<exists>c'. readRoutine_step 0 (ReadError (CloseError 1006)) after_failed_send =
           Blocked (AtSignal (CloseError 1006) None) c' \<and>
         buf (reconnectAfter c') = [broken_pipe]) \<and>
   room (reconnectAfter read_signal_taken) \<and>
   (\<exists>c3. readRoutine_resume (AtSignal (CloseError 1006) None) read_signal_taken =
           Returned () c3 \<and>
         buf (reconnectAfter c3) = [CloseError 1006])"
proof -
  have u: "IsUnexpectedCloseError (CloseError 1006) [CloseNormalClosure]"
    "\<not> IsUnexpectedCloseError (CloseError 1000) [CloseNormalClosure]"
    "\<not> IsUnexpectedCloseError (IOError ''i/o timeout'') [CloseNormalClosure]"
    by (simp_all add: CloseNormalClosure_def)
  have r: "room (reconnectAfter pinging)" "\<not> room (reconnectAfter after_failed_send)"
    by (simp_all add: pinging_eq after_failed_send_eq room_def)
  have v: "buf (reconnectAfter pinging) = []" "wg pinging = 2"
    "\<not> readRoutineQuit pinging"
    "buf (reconnectAfter after_failed_send) = [broken_pipe]"
    by (simp_all add: pinging_eq after_failed_send_eq)
  have a: "\<exists>c'. readRoutine_step 0 (ReadError (CloseError 1006)) pinging = Returned () c' \<and>
         buf (reconnectAfter c') = [CloseError 1006] \<and> wg c' = 1"
    "readRoutineQuit (state_of (readRoutine_step 0 (ReadError (CloseError 1006)) pinging))"
    using read_failure_signalled_on_close_error [of "CloseError 1006" 0 pinging] u r v by auto
  have b: "\<exists>c'. readRoutine_step 0 (ReadError (CloseError 1000)) pinging = Returned () c' \<and>
         buf (reconnectAfter c') = [] \<and> \<not> readRoutineQuit c'"
    using read_failure_signalled_on_close_error [of "CloseError 1000" 0 pinging] u v by auto
  have c: "\<exists>c'. readRoutine_step 0 (ReadError (IOError ''i/o timeout'')) pinging = Returned () c' \<and>
         buf (reconnectAfter c') = [] \<and> \<not> readRoutineQuit c'"
    using read_failure_signalled_on_close_error [of "IOError ''i/o timeout''" 0 pinging] u v by auto
  have d: "\<exists>c'. readRoutine_step 0 (ReadError (CloseError 1006)) after_failed_send =
           Blocked (AtSignal (CloseError 1006) None) c' \<and>
         buf (reconnectAfter c') = [broken_pipe]"
    using read_failure_signalled_on_close_error [of "CloseError 1006" 0 after_failed_send] u r v by auto
  have t: "room (reconnectAfter read_signal_taken)"
    "buf (reconnectAfter read_signal_taken) = []"
    by (simp_all add: read_signal_taken_eq room_def)
  from read_failure_signalled_on_close_error [of "CloseError 1006" 0 after_failed_send] u r t
  have e: "\<exists>c3. readRoutine_resume (AtSignal (CloseError 1006) None) read_signal_taken =
             Returned () c3 \<and>
           buf (reconnectAfter c3) = [CloseError 1006]"
    by (metis append_Nil)
  from u r a b c d t(1) e show ?thesis by blast
qed


text \<open>
  The claim as it was stated fails for a read that times out: the error is no close
  indication at all, and readRoutine returns without closing \<^verbatim>\<open>readRoutineQuit\<close> and
  without a failure signal.
\<close>

theorem read_timeout_not_signalled:
  "IOError ''i/o timeout'' \<noteq> CloseError CloseNormalClosure \<and>
   readRoutine_step 0 (ReadError (IOError ''i/o timeout'')) pinging =
     Returned () (state_of (readRoutine_step 0 (ReadError (IOError ''i/o timeout'')) pinging)) \<and>
   \<not> readRoutineQuit (state_of (readRoutine_step 0 (ReadError (IOError ''i/o timeout'')) pinging)) \<and>
   buf (reconnectAfter (state_of (readRoutine_step 0 (ReadError (IOError ''i/o timeout'')) pinging))) = []"
  unfolding read_timeout_eq by simp


section \<open>The intake\<close>


text \<open>
  \<^bold>\<open>C6\<close>. \<^verbatim>\<open>Send\<close> waits exactly while writeRoutine is not receiving and the context
  is not done. It returns nil exactly when writeRoutine received the request. When the
  context is done and writeRoutine is not receiving it returns the context's error.
  Whenever it returns an error, the error is the context's, the request was not handed
  over, and the client is as before; \<^verbatim>\<open>Send\<close> changes the client on no path.
\<close>

theorem Send_hands_over_or_cancels:
  "(Send c env request = SendBlocked c \<longleftrightarrow> \<not> writer_ready env \<and> ctx_done env = None) \<and>
   (Send c env request = SendReturned None (Some request) c \<longleftrightarrow>
      writer_ready env \<and> (ctx_done env = None \<or> pick_send env)) \<and>
   (\<not> writer_ready env \<and> ctx_done env = Some e \<longrightarrow>
      Send c env request = SendReturned (Some e) None c) \<and>
   (returned_error (Send c env request) = Some e \<longrightarrow>
      ctx_done env = Some e \<and> handed (Send c env request) = None \<and>
      client_after (Send c env request) = c) \<and>
   (returned_error (Send c env request) = None \<and> Send c env request \<noteq> SendBlocked c \<longrightarrow>
      handed (Send c env request) = Some request) \<and>
   client_after (Send c env request) = c"
  by (cases "ctx_done env") (auto simp add: Send_def)

theorem Send_hands_over_or_cancels_witness:
  "\<not> writer_ready cancelled_env \<and>
   ctx_done cancelled_env = Some (CtxError ''context canceled'') \<and>
   Send pinging cancelled_env request5 =
     SendReturned (Some (CtxError ''context canceled'')) None pinging \<and>
   returned_error (Send pinging cancelled_env request5) = Some (CtxError ''context canceled'') \<and>
   handed (Send pinging cancelled_env request5) = None \<and>
   client_after (Send pinging cancelled_env request5) = pinging \<and>
   returned_error (Send pinging (cancelled_env\<lparr>writer_ready := True, pick_send := True\<rparr>) request5) = None \<and>
   Send pinging (cancelled_env\<lparr>writer_ready := True, pick_send := True\<rparr>) request5 \<noteq> SendBlocked pinging \<and>
   handed (Send pinging (cancelled_env\<lparr>writer_ready := True, pick_send := True\<rparr>) request5) = Some request5"
  using Send_hands_over_or_cancels [of pinging cancelled_env request5 "CtxError ''context canceled''"]
    Send_hands_over_or_cancels [of pinging "cancelled_env\<lparr>writer_ready := True, pick_send := True\<rparr>" request5
      "CtxError ''context canceled''"]
  by (simp add: cancelled_env_def)


section \<open>The backoff\<close>








section \<open>Runs\<close>



















lemma run_Cons:
  "run (x # xs) c =
     (fst (perform x c) @ fst (run xs (snd (perform x c))), snd (run xs (snd (perform x c))))"
  by (simp add: split_beta)


lemma backlog_ok_perform: "backlog_ok c \<Longrightarrow> backlog_ok (snd (perform x c))"
proof (cases x)
  case (DoStart d)
  assume "backlog_ok c"
  then show ?thesis
    unfolding DoStart
    by (auto simp add: backlog_ok_def Start_def RunState_Start_def dial_def make_chan_def
        startReadWriteRoutines_def split: sum.splits)
next
  case DoCancel
  assume "backlog_ok c"
  then show ?thesis unfolding DoCancel by (simp add: backlog_ok_def)
qed (simp_all add: backlog_ok_Call backlog_ok_Stop backlog_ok_writeRoutine_step
    backlog_ok_writeRoutine_resume backlog_ok_readRoutine_step backlog_ok_readRoutine_resume
    backlog_ok_reconnectRoutine_step backlog_ok_reconnectRoutine_resume)

lemma backlog_ok_run: "backlog_ok c \<Longrightarrow> backlog_ok (snd (run xs c))"
proof (induction xs arbitrary: c)
  case Nil
  then show ?case by simp
next
  case (Cons x xs)
  from Cons.IH [OF backlog_ok_perform [OF Cons.prems, of x]] show ?case
    unfolding run_Cons by simp
qed







text \<open>
  \<^bold>\<open>C5\<close>. \<^verbatim>\<open>Start\<close> makes the backlog with capacity exactly one, empty, and in every
  run of the client from there the backlog keeps that capacity and holds at most one
  request. Whenever reconnectRoutine, the workers having exited, starts a worker pair
  while the backlog held a request, the connection the pair gets is open and that
  request is the only frame written on it, so the first; the request has left the
  backlog. After a successful redial with a write that succeeds, reconnectRoutine does
  start the pair.
\<close>

theorem backlog_single_slot_written_first:
  "(fst (Start (Inr n0) c0) = None \<longrightarrow>
      backlog (snd (Start (Inr n0) c0)) = \<lparr>cap = 1, buf = []\<rparr> \<and>
      cap (backlog (snd (run xs (snd (Start (Inr n0) c0))))) = 1 \<and>
      length (buf (backlog (snd (run xs (snd (Start (Inr n0) c0)))))) \<le> 1) \<and>
   (backlog_ok c \<longrightarrow> backlog_ok (snd (run xs c))) \<and>
   (reconnectRoutine_failure env c = Continue c' \<and> workerGens c' \<noteq> workerGens c \<and>
    buf (backlog c) = request # bs \<longrightarrow>
      (\<exists>k. conn c' = Some k \<and> written k = [JSONFrame request] \<and> \<not> closed k) \<and>
      buf (backlog c') = bs) \<and>
   (wg c = 0 \<and> \<not> ctxDone c \<and>
    reconnect_rounds env = map failed_round fs @ (j, WakeTimer (Inr n)) # rest \<and>
    length fs \<le> maxReconnectAttempts c \<and> buf (backlog c) = [request] \<and>
    backlog_write env = None \<longrightarrow>
      (\<exists>c''. reconnectRoutine_failure env c = Continue c'' \<and>
             workerGens c'' = workerGens c + 1 \<and>
             map_option connID (conn c'') = Some n \<and>
             map_option written (conn c'') = Some [JSONFrame request] \<and>
             buf (backlog c'') = []))"
proof -
  have 1: "backlog (snd (Start (Inr n0) c0)) = \<lparr>cap = 1, buf = []\<rparr> \<and>
      cap (backlog (snd (run xs (snd (Start (Inr n0) c0))))) = 1 \<and>
      length (buf (backlog (snd (run xs (snd (Start (Inr n0) c0)))))) \<le> 1"
    if s: "fst (Start (Inr n0) c0) = None"
  proof -
    have "backlog (snd (Start (Inr n0) c0)) = \<lparr>cap = 1, buf = []\<rparr>"
      using s
      by (auto simp add: Start_def RunState_Start_def dial_def make_chan_def
          startReadWriteRoutines_def split: if_splits)
    with backlog_ok_run [OF backlog_ok_Start [OF s], of xs] show ?thesis
      by (simp add: backlog_ok_def)
  qed
  have 2: "backlog_ok (snd (run xs c))" if "backlog_ok c"
    using backlog_ok_run [OF that] .
  have 3: "(\<exists>k. conn c' = Some k \<and> written k = [JSONFrame request] \<and> \<not> closed k) \<and>
      buf (backlog c') = bs"
    if "reconnectRoutine_failure env c = Continue c'" "workerGens c' \<noteq> workerGens c"
      "buf (backlog c) = request # bs"
    using written_first [OF that] by simp
  have 4: "\<exists>c''. reconnectRoutine_failure env c = Continue c'' \<and>
             workerGens c'' = workerGens c + 1 \<and>
             map_option connID (conn c'') = Some n \<and>
             map_option written (conn c'') = Some [JSONFrame request] \<and>
             buf (backlog c'') = []"
    if a: "wg c = 0" "\<not> ctxDone c"
      "reconnect_rounds env = map failed_round fs @ (j, WakeTimer (Inr n)) # rest"
      "length fs \<le> maxReconnectAttempts c"
      and b: "buf (backlog c) = [request]" and w: "backlog_write env = None"
  proof -
    have "buf (backlog (redialled n c)) = [request]" using b by (simp add: redialled_def)
    from processBacklog_written [OF this, of "backlog_now env"] coordinator_after_redial [OF a] w
    show ?thesis
      by (simp add: startReadWriteRoutines_def write_frame_def set_write_deadline_def on_conn_def
          redialled_def new_conn_def)
  qed
  from 1 2 3 4 show ?thesis by blast
qed

theorem backlog_single_slot_written_first_witness:
  "fst (Start (Inr 1) NewWS) = None \<and>
   backlog (snd (Start (Inr 1) NewWS)) = \<lparr>cap = 1, buf = []\<rparr> \<and>
   backlog_ok workers_gone \<and>
   backlog_ok (snd (run [DoReconnectResume AtWaitGroup (retry_env None)] workers_gone)) \<and>
   reconnectRoutine_failure (retry_env None) workers_gone =
     Continue (state_of (reconnectRoutine_failure (retry_env None) workers_gone)) \<and>
   workerGens (state_of (reconnectRoutine_failure (retry_env None) workers_gone)) \<noteq>
     workerGens workers_gone \<and>
   buf (backlog workers_gone) = [request5] \<and> wg workers_gone = 0 \<and>
   \<not> ctxDone workers_gone \<and>
   reconnect_rounds (retry_env None) = map failed_round [] @ [(0, WakeTimer (Inr 2))] \<and>
   length ([] :: (Duration \<times> error) list) \<le> maxReconnectAttempts workers_gone \<and>
   backlog_write (retry_env None) = None \<and>
   (\<exists>k. conn (state_of (reconnectRoutine_failure (retry_env None) workers_gone)) = Some k \<and>
        written k = [JSONFrame request5] \<and> \<not> closed k) \<and>
   buf (backlog (state_of (reconnectRoutine_failure (retry_env None) workers_gone))) = []"
proof -
  let ?c' = "state_of (reconnectRoutine_failure (retry_env None) workers_gone)"
  have s: "fst (Start (Inr 1) NewWS) = None"
    by (subst started_eq) simp
  have e: "reconnectRoutine_failure (retry_env None) workers_gone =
             reconnectRoutine_resume AtWaitGroup (retry_env None) workers_gone"
    by simp
  have h: "backlog_ok workers_gone"
    "reconnectRoutine_failure (retry_env None) workers_gone = Continue ?c'"
    "workerGens ?c' \<noteq> workerGens workers_gone"
    "buf (backlog workers_gone) = [request5]" "wg workers_gone = 0"
    "\<not> ctxDone workers_gone"
    "reconnect_rounds (retry_env None) = map failed_round [] @ [(0, WakeTimer (Inr 2))]"
    "length ([] :: (Duration \<times> error) list) \<le> maxReconnectAttempts workers_gone"
    "backlog_write (retry_env None) = None"
    unfolding e retry_ok_eq
    by (simp_all add: backlog_ok_def) (simp_all add: workers_gone_eq retry_env_def)
  from s h show ?thesis
    using backlog_single_slot_written_first [where ?n0.0 = 1 and ?c0.0 = NewWS
        and xs = "[DoReconnectResume AtWaitGroup (retry_env None)]"
        and c = workers_gone and env = "retry_env None" and c' = ?c' and request = request5
        and bs = "[]" and fs = "[]" and j = 0 and n = 2 and rest = "[]"]
    by simp
qed

end
